theory Spec2Isabelle
  imports Main
begin

section \<open>JavaScript values\<close>

text \<open>
  The import service works on untyped JavaScript values: records are plain objects,
  relational fields hold numbers, objects or arrays of both. An object is an association
  list in insertion order; a read takes the first binding of a key. Numbers are the
  integers (identifiers are integers; fractions and NaN have no value here).
  \<open>JBuiltin k\<close> is the member \<open>k\<close> that every object inherits from
  \<open>Object.prototype\<close>: a built-in function, or for \<open>__proto__\<close> the prototype object
  itself.
\<close>

datatype jsval =
    JUndefined
  | JNull
  | JBool bool
  | JNum int
  | JStr string
  | JArr "jsval list"
  | JObj "(string \<times> jsval) list"
  | JBuiltin string

type_synonym obj = "(string \<times> jsval) list"

text \<open>
  An exception is known by its message, which is all the service reads of it.
  \<open>TypeError\<close> is the one the engine raises when the service reads or writes a property
  of \<open>null\<close>, \<open>undefined\<close> or (writing) a primitive, or iterates what is not iterable;
  its message is the engine's.
\<close>

datatype error = TypeError | Error string

text \<open>Truthiness, as \<open>if (v)\<close>, \<open>!v\<close> and \<open>a || b\<close> read it.\<close>

fun truthy :: "jsval \<Rightarrow> bool" where
  "truthy JUndefined = False"
| "truthy JNull = False"
| "truthy (JBool b) = b"
| "truthy (JNum n) = (n \<noteq> 0)"
| "truthy (JStr s) = (s \<noteq> [])"
| "truthy (JArr xs) = True"
| "truthy (JObj kvs) = True"
| "truthy (JBuiltin k) = True"

text \<open>\<open>v == null\<close>: true of \<open>null\<close> and \<open>undefined\<close> only.\<close>

fun nullish :: "jsval \<Rightarrow> bool" where
  "nullish JUndefined = True"
| "nullish JNull = True"
| "nullish v = False"

fun typeof :: "jsval \<Rightarrow> string" where
  "typeof JUndefined = ''undefined''"
| "typeof JNull = ''object''"
| "typeof (JBool b) = ''boolean''"
| "typeof (JNum n) = ''number''"
| "typeof (JStr s) = ''string''"
| "typeof (JArr xs) = ''object''"
| "typeof (JObj kvs) = ''object''"
| "typeof (JBuiltin k) = (if k = ''__proto__'' then ''object'' else ''function'')"

subsection \<open>Properties\<close>

text \<open>
  A key that an object does not own is read from its prototype. Every value below
  inherits the members of \<open>Object.prototype\<close>, which are all truthy; any other key that
  is not owned reads as \<open>undefined\<close>.
\<close>

definition Object_prototype_keys :: "string list" where
  "Object_prototype_keys =
     [''constructor'', ''__defineGetter__'', ''__defineSetter__'', ''hasOwnProperty'',
      ''__lookupGetter__'', ''__lookupSetter__'', ''isPrototypeOf'', ''propertyIsEnumerable'',
      ''toString'', ''valueOf'', ''__proto__'', ''toLocaleString'']"

definition inherited :: "string \<Rightarrow> jsval" where
  "inherited k = (if k \<in> set Object_prototype_keys then JBuiltin k else JUndefined)"

text \<open>\<open>o[k]\<close> on a plain object: the own property, or else the inherited one.\<close>

primrec obj_get :: "obj \<Rightarrow> string \<Rightarrow> jsval" where
  "obj_get [] k = inherited k"
| "obj_get (p # ps) k = (if fst p = k then snd p else obj_get ps k)"

text \<open>An existing key keeps its place, a new key goes last.\<close>

primrec obj_set :: "obj \<Rightarrow> string \<Rightarrow> jsval \<Rightarrow> obj" where
  "obj_set [] k v = [(k, v)]"
| "obj_set (p # ps) k v = (if fst p = k then (k, v) # ps else p # obj_set ps k v)"

primrec obj_delete :: "obj \<Rightarrow> string \<Rightarrow> obj" where
  "obj_delete [] k = []"
| "obj_delete (p # ps) k = (if fst p = k then obj_delete ps k else p # obj_delete ps k)"

text \<open>The index that a key names, if it is the decimal numeral of one (\<open>'0'\<close>, \<open>'17'\<close>,
  not \<open>'01'\<close>), and the key of an index.\<close>

definition digit_of :: "char \<Rightarrow> nat option" where
  "digit_of = map_of (zip ''0123456789'' [0, 1, 2, 3, 4, 5, 6, 7, 8, 9])"

fun digits_value :: "string \<Rightarrow> nat \<Rightarrow> nat option" where
  "digits_value [] acc = Some acc"
| "digits_value (c # cs) acc =
     (case digit_of c of None \<Rightarrow> None | Some d \<Rightarrow> digits_value cs (10 * acc + d))"

definition index_of_name :: "string \<Rightarrow> nat option" where
  "index_of_name k =
     (case k of
        [] \<Rightarrow> None
      | c # cs \<Rightarrow> if c = CHR ''0'' \<and> cs \<noteq> [] then None else digits_value k 0)"

function index_name :: "nat \<Rightarrow> string" where
  "index_name n =
     (if n < 10 then [''0123456789'' ! n]
      else index_name (n div 10) @ [''0123456789'' ! (n mod 10)])"
  by pat_completeness auto
termination
  by (relation "measure id") auto

declare index_name.simps [simp del]

text \<open>
  \<open>v[k]\<close> on a value that is not \<open>null\<close> or \<open>undefined\<close> (there the read raises a
  \<open>TypeError\<close>, which every caller below checks first). An array owns its entries and its
  \<open>length\<close>, a string its characters and its \<open>length\<close>. What a value inherits beyond the
  members of \<open>Object.prototype\<close> (the methods of arrays, strings, numbers and functions)
  and a function's own \<open>name\<close> and \<open>length\<close> are not represented: they read as
  \<open>undefined\<close>.
\<close>

fun js_get :: "jsval \<Rightarrow> string \<Rightarrow> jsval" where
  "js_get (JObj kvs) k = obj_get kvs k"
| "js_get (JArr xs) k =
     (if k = ''length'' then JNum (int (length xs))
      else case index_of_name k of
        None \<Rightarrow> inherited k
      | Some i \<Rightarrow> if i < length xs then xs ! i else inherited k)"
| "js_get (JStr s) k =
     (if k = ''length'' then JNum (int (length s))
      else case index_of_name k of
        None \<Rightarrow> inherited k
      | Some i \<Rightarrow> if i < length s then JStr [s ! i] else inherited k)"
| "js_get JUndefined k = JUndefined"
| "js_get JNull k = JUndefined"
| "js_get (JBuiltin b) k = (if b = ''__proto__'' \<and> k = ''__proto__'' then JNull else inherited k)"
| "js_get v k = inherited k"

text \<open>
  \<open>v[k] = x\<close> in module (strict) code: a write to a primitive or to \<open>null\<close> raises a
  \<open>TypeError\<close>. A named property written to an array or to a built-in has no place in
  \<open>jsval\<close>; the value is returned as it was. The keys the service writes are the names
  of schema attributes, \<open>publishedAt\<close> and \<open>id\<close>; none of them is \<open>__proto__\<close>, whose
  assignment would set the prototype instead.
\<close>

fun js_set :: "jsval \<Rightarrow> string \<Rightarrow> jsval \<Rightarrow> error + jsval" where
  "js_set (JObj kvs) k x = Inr (JObj (obj_set kvs k x))"
| "js_set (JArr xs) k x = Inr (JArr xs)"
| "js_set (JBuiltin b) k x = Inr (JBuiltin b)"
| "js_set v k x = Inl TypeError"

text \<open>\<open>delete v[k]\<close> on a value that is not \<open>null\<close> or \<open>undefined\<close>.\<close>

fun js_delete :: "jsval \<Rightarrow> string \<Rightarrow> jsval" where
  "js_delete (JObj kvs) k = JObj (obj_delete kvs k)"
| "js_delete v k = v"

text \<open>\<open>{...v}\<close>: the own enumerable properties: those of an object, the entries of an
  array and the characters of a string under their indices, none for any other value.\<close>

fun indexed :: "nat \<Rightarrow> jsval list \<Rightarrow> obj" where
  "indexed i [] = []"
| "indexed i (x # xs) = (index_name i, x) # indexed (Suc i) xs"

fun spread :: "jsval \<Rightarrow> obj" where
  "spread (JObj kvs) = kvs"
| "spread (JArr xs) = indexed 0 xs"
| "spread (JStr s) = indexed 0 (map (\<lambda>c. JStr [c]) s)"
| "spread v = []"

text \<open>\<open>v?.id\<close> and \<open>v?.version\<close>\<close>

definition opt_id :: "jsval \<Rightarrow> jsval" where
  "opt_id v = (if nullish v then JUndefined else js_get v ''id'')"

definition opt_version :: "jsval \<Rightarrow> jsval" where
  "opt_version v = (if nullish v then JUndefined else js_get v ''version'')"

subsection \<open>The helpers of \<open>libs/arrays.js\<close> and \<open>libs/objects.js\<close>\<close>

text \<open>Modelled from the spec: \<open>isArraySafe\<close>, \<open>toArray\<close> and \<open>isObjectSafe\<close> live in
  \<open>libs/\<close>, which is not among the sources. The resolver "coerces the input to a
  sequence", keeps "a reference number", recurses into "a structured object".\<close>

fun isArraySafe :: "jsval \<Rightarrow> bool" where
  "isArraySafe (JArr xs) = True"
| "isArraySafe v = False"

fun toArray :: "jsval \<Rightarrow> jsval list" where
  "toArray (JArr xs) = xs"
| "toArray v = [v]"

fun isObjectSafe :: "jsval \<Rightarrow> bool" where
  "isObjectSafe (JObj kvs) = True"
| "isObjectSafe v = False"

section \<open>Schema, store and collaborators\<close>

record attribute =
  attr_name :: string
  attr_type :: string
  repeatable :: bool
  multiple :: bool
  component :: string
  target :: string
  allowedTypes :: jsval

record model =
  kind :: string
  draftAndPublish :: bool
  attributes :: "attribute list"

text \<open>
  Every call that reaches the store or the file importer is written to a log before it is
  made, so that what the service asks of the store can be stated whatever the store
  answers. \<open>Update slug id data\<close> is \<open>update({ where: { id }, data })\<close>.
\<close>

datatype call =
    Create string jsval
  | FindOne string jsval
  | FindMany string
  | Update string jsval jsval
  | FindOrImportFile jsval jsval jsval

record 's world =
  store :: 's
  calls :: "call list"

text \<open>\<open>ImportDataFailures\<close>: \<open>{ error, data }\<close>.\<close>

record failure =
  f_error :: string
  f_data :: jsval

text \<open>
  What the service is given: the schema (\<open>getModel\<close>), the store (\<open>strapi.db.query\<close>),
  the file importer, the reserved media slug, the library and engine functions it calls,
  and the service's second entry \<open>importDataV2\<close>. A store call answers with an entity or
  raises, and leaves a store behind either way. The engine functions raise as the engine
  does: \<open>ToString\<close> (the conversion of a value to text in a template literal),
  \<open>Number\<close> and \<open>new Date(v)\<close> raise for an object that has no usable \<open>toString\<close> or
  \<open>valueOf\<close>; \<open>Number\<close> and \<open>new Date(v).toISOString()\<close> answer \<open>None\<close> for \<open>NaN\<close>
  and for an invalid date; \<open>Object_prototype k\<close> is the call of the member \<open>k\<close> of
  \<open>Object.prototype\<close> in a parser's place; \<open>TypeError_message\<close> is the engine's wording
  of the \<open>TypeError\<close> that the service itself runs into.
\<close>

record 's env =
  getModel :: "string \<Rightarrow> model option"
  db_create :: "string \<Rightarrow> jsval \<Rightarrow> 's \<Rightarrow> (error + jsval) \<times> 's"
  db_findOne :: "string \<Rightarrow> jsval \<Rightarrow> 's \<Rightarrow> (error + jsval) \<times> 's"
  db_findMany :: "string \<Rightarrow> 's \<Rightarrow> (error + jsval list) \<times> 's"
  db_update :: "string \<Rightarrow> jsval \<Rightarrow> jsval \<Rightarrow> 's \<Rightarrow> (error + jsval) \<times> 's"
  file_findOrImport :: "jsval \<Rightarrow> jsval \<Rightarrow> jsval \<Rightarrow> 's \<Rightarrow> (error + jsval) \<times> 's"
  MEDIA :: string
  csvtojson :: "jsval \<Rightarrow> error + obj list"
  JSON_parse :: "jsval \<Rightarrow> error + jsval"
  JSON_stringify :: "jsval \<Rightarrow> error + jsval"
  Date_toISOString :: "jsval \<Rightarrow> error + string option"
  Number :: "jsval \<Rightarrow> error + int option"
  ToString :: "jsval \<Rightarrow> error + string"
  TypeError_message :: string
  Object_prototype :: "string \<Rightarrow> jsval \<Rightarrow> error + jsval"
  importDataV2 :: "jsval \<Rightarrow> string \<Rightarrow> jsval \<Rightarrow> string option \<Rightarrow> bool \<Rightarrow> 's \<Rightarrow> (error + failure list) \<times> 's"

text \<open>\<open>err.message\<close>\<close>

fun message :: "'s env \<Rightarrow> error \<Rightarrow> string" where
  "message env TypeError = TypeError_message env"
| "message env (Error m) = m"

text \<open>
  The exception, if any, of writing a value into a template literal (\<open>`... ${v}`\<close>). A
  primitive and a built-in function convert to text; an object or an array converts
  through its \<open>toString\<close> and \<open>valueOf\<close>, which the engine calls and which raises when
  neither gives a primitive (as for \<open>{ toString: 1 }\<close>).
\<close>

fun template_error :: "'s env \<Rightarrow> jsval \<Rightarrow> error option" where
  "template_error env (JObj kvs) = (case ToString env (JObj kvs) of Inl e \<Rightarrow> Some e | Inr t \<Rightarrow> None)"
| "template_error env (JArr xs) = (case ToString env (JArr xs) of Inl e \<Rightarrow> Some e | Inr t \<Rightarrow> None)"
| "template_error env v = None"

text \<open>Modelled from the spec: \<open>getModelAttributes\<close> lives in \<open>utils/models.js\<close>, which is
  not among the sources. It "returns the attribute list" of a model, here the attributes
  whose type is one of \<open>filterType\<close>, in schema order; an unknown model has none.\<close>

definition getModelAttributes :: "'s env \<Rightarrow> string \<Rightarrow> string list \<Rightarrow> attribute list" where
  "getModelAttributes env slug filterType =
     (case getModel env slug of
        None \<Rightarrow> []
      | Some m \<Rightarrow> filter (\<lambda>a. attr_type a \<in> set filterType) (attributes m))"

text \<open>\<open>model?.options?.draftAndPublish === true\<close>\<close>

definition hasDraftAndPublish :: "'s env \<Rightarrow> string \<Rightarrow> bool" where
  "hasDraftAndPublish env slug =
     (case getModel env slug of None \<Rightarrow> False | Some m \<Rightarrow> draftAndPublish m)"

definition query_create :: "'s env \<Rightarrow> string \<Rightarrow> jsval \<Rightarrow> 's world \<Rightarrow> (error + jsval) \<times> 's world" where
  "query_create env slug data w =
     (case db_create env slug data (store w) of
        (r, s) \<Rightarrow> (r, \<lparr>store = s, calls = calls w @ [Create slug data]\<rparr>))"

definition query_findOne :: "'s env \<Rightarrow> string \<Rightarrow> jsval \<Rightarrow> 's world \<Rightarrow> (error + jsval) \<times> 's world" where
  "query_findOne env slug wh w =
     (case db_findOne env slug wh (store w) of
        (r, s) \<Rightarrow> (r, \<lparr>store = s, calls = calls w @ [FindOne slug wh]\<rparr>))"

definition query_findMany :: "'s env \<Rightarrow> string \<Rightarrow> 's world \<Rightarrow> (error + jsval list) \<times> 's world" where
  "query_findMany env slug w =
     (case db_findMany env slug (store w) of
        (r, s) \<Rightarrow> (r, \<lparr>store = s, calls = calls w @ [FindMany slug]\<rparr>))"

definition query_update :: "'s env \<Rightarrow> string \<Rightarrow> jsval \<Rightarrow> jsval \<Rightarrow> 's world \<Rightarrow> (error + jsval) \<times> 's world" where
  "query_update env slug i data w =
     (case db_update env slug i data (store w) of
        (r, s) \<Rightarrow> (r, \<lparr>store = s, calls = calls w @ [Update slug i data]\<rparr>))"

definition findOrImportFile :: "'s env \<Rightarrow> jsval \<Rightarrow> jsval \<Rightarrow> jsval \<Rightarrow> 's world \<Rightarrow> (error + jsval) \<times> 's world" where
  "findOrImportFile env fileDatum user allowed w =
     (case file_findOrImport env fileDatum user allowed (store w) of
        (r, s) \<Rightarrow> (r, \<lparr>store = s, calls = calls w @ [FindOrImportFile fileDatum user allowed]\<rparr>))"

section \<open>The upsert engine\<close>

text \<open>
  \<open>updateOrCreate\<close> writes into the record it is given (\<open>data[name] = ...\<close>,
  \<open>delete data.id\<close>), and the import loop reports that same object when the call
  fails. So every function below returns, besides its outcome and the world, its argument
  as the call left it. A record is taken to be a tree, as decoded text gives it: no
  object is shared between two fields.

  \<open>updateOrCreate\<close> and \<open>updateOrCreateRelation\<close> call each other, through the schema
  and as deep as the record nests. The resolver takes the call it makes for a nested
  record as its argument \<open>rec\<close>; \<open>updateOrCreate\<close> ties the knot on a bound \<open>n\<close> of
  nested calls and answers \<open>None\<close> when the bound is used up.
\<close>

type_synonym 's upsert =
  "string \<Rightarrow> jsval \<Rightarrow> string option \<Rightarrow> 's world \<Rightarrow> ((error + jsval) \<times> jsval \<times> 's world) option"

text \<open>The entry just visited, as the call left it, goes back in front of the others.\<close>

definition with_head :: "jsval \<Rightarrow> ('a \<times> jsval list \<times> 'w) option \<Rightarrow> ('a \<times> jsval list \<times> 'w) option" where
  "with_head d r = (case r of None \<Rightarrow> None | Some (x, rest, w) \<Rightarrow> Some (x, d # rest, w))"

text \<open>\<open>entryIds?.[0] || null\<close>\<close>

definition first_or_null :: "jsval list \<Rightarrow> jsval" where
  "first_or_null entryIds =
     (case entryIds of [] \<Rightarrow> JNull | i # _ \<Rightarrow> if truthy i then i else JNull)"

text \<open>The field's value after the loop has visited (and written into) the entries
  \<open>ys\<close> it took from it: the array with its first entries replaced, or the one entry.\<close>

definition write_back :: "jsval \<Rightarrow> jsval list \<Rightarrow> jsval" where
  "write_back relData ys =
     (case relData of
        JArr xs \<Rightarrow> JArr (ys @ drop (length ys) xs)
      | _ \<Rightarrow> (case ys of [] \<Rightarrow> relData | d # _ \<Rightarrow> d))"

text \<open>The loop of the \<open>dynamiczone\<close> branch (lines 204-208). A tag \<open>__component\<close> that
  is not a string names no model, and \<open>model.kind\<close> raises for it. The resolved
  component is tagged with the \<open>__component\<close> its datum holds after the upsert.\<close>

fun dynamiczone_loop ::
  "'s upsert \<Rightarrow> jsval list \<Rightarrow> jsval list \<Rightarrow> 's world \<Rightarrow> ((error + jsval list) \<times> jsval list \<times> 's world) option" where
  "dynamiczone_loop rec [] components w = Some (Inr components, [], w)"
| "dynamiczone_loop rec (componentDatum # rest) components w =
     (if nullish componentDatum then Some (Inl TypeError, componentDatum # rest, w)
      else case js_get componentDatum ''__component'' of
        JStr tag \<Rightarrow>
          (case rec tag componentDatum None w of
             None \<Rightarrow> None
           | Some (Inl e, d, w1) \<Rightarrow> Some (Inl e, d # rest, w1)
           | Some (Inr entry, d, w1) \<Rightarrow>
               with_head d
                 (dynamiczone_loop rec rest
                    (components @ [JObj (obj_set (spread entry) ''__component''
                                            (js_get d ''__component''))]) w1))
      | _ \<Rightarrow> Some (Inl TypeError, componentDatum # rest, w))"

text \<open>The loop of the \<open>component\<close> branch (lines 214-223) and of the \<open>relation\<close> branch
  (lines 240-249), which differ in the model they upsert into.\<close>

fun entryIds_loop ::
  "'s upsert \<Rightarrow> string \<Rightarrow> jsval list \<Rightarrow> jsval list \<Rightarrow> 's world \<Rightarrow> ((error + jsval list) \<times> jsval list \<times> 's world) option" where
  "entryIds_loop rec slug [] entryIds w = Some (Inr entryIds, [], w)"
| "entryIds_loop rec slug (relDatum # rest) entryIds w =
     (if typeof relDatum = ''number'' then
        with_head relDatum (entryIds_loop rec slug rest (entryIds @ [relDatum]) w)
      else if isObjectSafe relDatum then
        (case rec slug relDatum None w of
           None \<Rightarrow> None
         | Some (Inl e, d, w1) \<Rightarrow> Some (Inl e, d # rest, w1)
         | Some (Inr entry, d, w1) \<Rightarrow>
             with_head d
               (entryIds_loop rec slug rest
                  (if truthy (opt_id entry) then entryIds @ [opt_id entry] else entryIds) w1))
      else with_head relDatum (entryIds_loop rec slug rest entryIds w))"

text \<open>The loop of the \<open>media\<close> branch (lines 229-234).\<close>

fun media_loop ::
  "'s env \<Rightarrow> jsval \<Rightarrow> jsval \<Rightarrow> jsval list \<Rightarrow> jsval list \<Rightarrow> 's world \<Rightarrow> (error + jsval list) \<times> 's world" where
  "media_loop env user allowed [] entryIds w = (Inr entryIds, w)"
| "media_loop env user allowed (relDatum # rest) entryIds w =
     (case findOrImportFile env relDatum user allowed w of
        (Inl e, w1) \<Rightarrow> (Inl e, w1)
      | (Inr media, w1) \<Rightarrow>
          media_loop env user allowed rest
            (if truthy (opt_id media) then entryIds @ [opt_id media] else entryIds) w1)"

definition updateOrCreateRelation ::
  "'s upsert \<Rightarrow> 's env \<Rightarrow> jsval \<Rightarrow> attribute \<Rightarrow> jsval \<Rightarrow> 's world \<Rightarrow> ((error + jsval) \<times> jsval \<times> 's world) option" where
  "updateOrCreateRelation rec env user rel relData w =
     (if nullish relData then Some (Inr JNull, relData, w)
      else if attr_name rel \<in> set [''createdBy'', ''updatedBy''] then
        (if nullish user then Some (Inl TypeError, relData, w)
         else Some (Inr (js_get user ''id''), relData, w))
      else if attr_type rel = ''dynamiczone'' then
        (if \<not> truthy relData then Some (Inr (JArr []), relData, w)
         else case relData of
           JArr xs \<Rightarrow>
             (case dynamiczone_loop rec xs [] w of
                None \<Rightarrow> None
              | Some (Inl e, ys, w1) \<Rightarrow> Some (Inl e, JArr ys, w1)
              | Some (Inr components, ys, w1) \<Rightarrow> Some (Inr (JArr components), JArr ys, w1))
         | _ \<Rightarrow> Some (Inl TypeError, relData, w))
      else if attr_type rel = ''component'' then
        (case entryIds_loop rec (component rel)
                (if repeatable rel then toArray relData else take 1 (toArray relData)) [] w of
           None \<Rightarrow> None
         | Some (Inl e, ys, w1) \<Rightarrow> Some (Inl e, write_back relData ys, w1)
         | Some (Inr entryIds, ys, w1) \<Rightarrow>
             Some (Inr (if repeatable rel then JArr entryIds else first_or_null entryIds),
                   write_back relData ys, w1))
      else if attr_type rel = ''media'' then
        (case media_loop env user
                (if nullish (allowedTypes rel) then JArr [JStr ''any''] else allowedTypes rel)
                (if multiple rel then toArray relData else take 1 (toArray relData)) [] w of
           (Inl e, w1) \<Rightarrow> Some (Inl e, relData, w1)
         | (Inr entryIds, w1) \<Rightarrow>
             Some (Inr (if multiple rel then JArr entryIds else first_or_null entryIds), relData, w1))
      else if attr_type rel = ''relation'' then
        (case entryIds_loop rec (target rel) (toArray relData) [] w of
           None \<Rightarrow> None
         | Some (Inl e, ys, w1) \<Rightarrow> Some (Inl e, write_back relData ys, w1)
         | Some (Inr entryIds, ys, w1) \<Rightarrow>
             Some (Inr (if isArraySafe relData then JArr entryIds else first_or_null entryIds),
                   write_back relData ys, w1))
      else Some (Inl (Error (''Could not update or create relation of type '' @ attr_type rel @ ''.'')),
                 relData, w))"

text \<open>Modelled from the spec: \<open>ObjectBuilder\<close> lives in \<open>libs/objects.js\<close>, which is not
  among the sources. The engine "builds a lookup filter" with it: \<open>extend\<close> adds the
  properties of an object to the one being built.\<close>

definition ObjectBuilder_extend :: "obj \<Rightarrow> obj \<Rightarrow> obj" where
  "ObjectBuilder_extend built kvs = fold (\<lambda>p acc. obj_set acc (fst p) (snd p)) kvs built"

text \<open>Line 147, the log line of the lookup filter and of the value it is built from:
  \<open>JSON.stringify(where)\<close> and the conversion of \<open>data[idField]\<close> to text may raise.\<close>

definition where_log :: "'s env \<Rightarrow> obj \<Rightarrow> jsval \<Rightarrow> error option" where
  "where_log env wher v =
     (case JSON_stringify env (JObj wher) of
        Inl e \<Rightarrow> Some e
      | Inr logged \<Rightarrow> template_error env v)"

text \<open>
  Lines 140-174. The log lines that write a value of the record or of the store into a
  template literal are part of the function: line 147 (before \<open>delete data.id\<close> and
  before any call to the store) and line 165 (the \<open>id\<close> of the entity found, before the
  \<open>update\<close>). Line 159 writes \<open>where[idField]\<close>, which line 147 has converted already.
  \<open>data[idField]\<close> raises for a record that is \<open>null\<close> or \<open>undefined\<close>.
\<close>

definition updateOrCreateCollectionType ::
  "'s env \<Rightarrow> string \<Rightarrow> jsval \<Rightarrow> string \<Rightarrow> 's world \<Rightarrow> (error + jsval) \<times> jsval \<times> 's world" where
  "updateOrCreateCollectionType env slug data idField w =
     (if nullish data then (Inl TypeError, data, w) else
      let wher = (if truthy (js_get data idField)
                  then ObjectBuilder_extend [] [(idField, js_get data idField)] else [])
      in case where_log env wher (js_get data idField) of
           Some e \<Rightarrow> (Inl e, data, w)
         | None \<Rightarrow>
             (let data1 = (if idField \<noteq> ''id'' then js_delete data ''id'' else data)
              in if \<not> truthy (obj_get wher idField) then
                   (case query_create env slug data1 w of (r, w1) \<Rightarrow> (r, data1, w1))
                 else
                   (case query_findOne env slug (JObj wher) w of
                      (Inl e, w1) \<Rightarrow> (Inl e, data1, w1)
                    | (Inr existingEntry, w1) \<Rightarrow>
                        if truthy existingEntry then
                          (case template_error env (js_get existingEntry ''id'') of
                             Some e \<Rightarrow> (Inl e, data1, w1)
                           | None \<Rightarrow>
                               (case query_update env slug (js_get existingEntry ''id'') data1 w1 of
                                  (r, w2) \<Rightarrow> (r, data1, w2)))
                        else
                          (case query_create env slug data1 w1 of (r, w2) \<Rightarrow> (r, data1, w2)))))"

text \<open>Lines 176-187; \<open>delete data.id\<close> raises for a record that is \<open>null\<close> or
  \<open>undefined\<close>.\<close>

definition updateOrCreateSingleType ::
  "'s env \<Rightarrow> string \<Rightarrow> jsval \<Rightarrow> string \<Rightarrow> 's world \<Rightarrow> (error + jsval) \<times> jsval \<times> 's world" where
  "updateOrCreateSingleType env slug data idField w =
     (if nullish data then (Inl TypeError, data, w) else
      let data1 = js_delete data ''id''
      in case query_findMany env slug w of
           (Inl e, w1) \<Rightarrow> (Inl e, data1, w1)
         | (Inr found, w1) \<Rightarrow>
             (let entry = (case found of [] \<Rightarrow> JUndefined | e # _ \<Rightarrow> e)
              in if \<not> truthy entry then
                   (case query_create env slug data1 w1 of (r, w2) \<Rightarrow> (r, data1, w2))
                 else
                   (case query_update env slug (js_get entry ''id'') data1 w1 of
                      (r, w2) \<Rightarrow> (r, data1, w2))))"

text \<open>When the resolver raises, the field still holds what it held, as the nested calls
  left it.\<close>

definition left_in_field :: "jsval \<Rightarrow> string \<Rightarrow> jsval \<Rightarrow> jsval" where
  "left_in_field data k relData =
     (case data of
        JObj kvs \<Rightarrow> if k \<in> set (map fst kvs) then JObj (obj_set kvs k relData) else data
      | _ \<Rightarrow> data)"

text \<open>The loop of lines 126-128.\<close>

fun resolve_attributes ::
  "'s upsert \<Rightarrow> 's env \<Rightarrow> jsval \<Rightarrow> attribute list \<Rightarrow> jsval \<Rightarrow> 's world \<Rightarrow> ((error + unit) \<times> jsval \<times> 's world) option" where
  "resolve_attributes rec env user [] data w = Some (Inr (), data, w)"
| "resolve_attributes rec env user (a # as) data w =
     (case updateOrCreateRelation rec env user a (js_get data (attr_name a)) w of
        None \<Rightarrow> None
      | Some (Inl e, relData, w1) \<Rightarrow> Some (Inl e, left_in_field data (attr_name a) relData, w1)
      | Some (Inr v, relData, w1) \<Rightarrow>
          (case js_set data (attr_name a) v of
             Inl e \<Rightarrow> Some (Inl e, data, w1)
           | Inr data1 \<Rightarrow> resolve_attributes rec env user as data1 w1))"

text \<open>Lines 130-137: the write, by the kind of the model. \<open>model.kind\<close> raises for a
  slug that names no model.\<close>

definition upsert_entry ::
  "'s env \<Rightarrow> string \<Rightarrow> jsval \<Rightarrow> string \<Rightarrow> 's world \<Rightarrow> (error + jsval) \<times> jsval \<times> 's world" where
  "upsert_entry env slug data idField w =
     (case getModel env slug of
        None \<Rightarrow> (Inl TypeError, data, w)
      | Some m \<Rightarrow>
          if kind m = ''singleType'' then updateOrCreateSingleType env slug data idField w
          else updateOrCreateCollectionType env slug data idField w)"

text \<open>
  The body of \<open>updateOrCreate\<close>. A record that is \<open>null\<close> or \<open>undefined\<close> raises a
  \<open>TypeError\<close> at the first property the body touches (\<open>data[attribute.name]\<close>,
  \<open>model.kind\<close> of an unknown model, \<open>delete data.id\<close> or \<open>data[idField]\<close>), before any
  call to the store. An omitted \<open>idField\<close> is \<open>'id'\<close>.
\<close>

definition relationTypes :: "string list" where
  "relationTypes = [''component'', ''dynamiczone'', ''media'', ''relation'']"

definition updateOrCreate_body ::
  "'s upsert \<Rightarrow> 's env \<Rightarrow> jsval \<Rightarrow> string \<Rightarrow> jsval \<Rightarrow> string option \<Rightarrow> 's world \<Rightarrow> ((error + jsval) \<times> jsval \<times> 's world) option" where
  "updateOrCreate_body rec env user slug data idField w =
     (if nullish data then Some (Inl TypeError, data, w)
      else case resolve_attributes rec env user (getModelAttributes env slug relationTypes) data w of
        None \<Rightarrow> None
      | Some (Inl e, data1, w1) \<Rightarrow> Some (Inl e, data1, w1)
      | Some (Inr u, data1, w1) \<Rightarrow>
          Some (upsert_entry env slug data1 (case idField of None \<Rightarrow> ''id'' | Some f \<Rightarrow> f) w1))"

primrec updateOrCreate :: "nat \<Rightarrow> 's env \<Rightarrow> jsval \<Rightarrow> 's upsert" where
  "updateOrCreate 0 env user = (\<lambda>slug data idField w. None)"
| "updateOrCreate (Suc n) env user =
     (\<lambda>slug data idField w. updateOrCreate_body (updateOrCreate n env user) env user slug data idField w)"


section \<open>The format parsers\<close>

subsection \<open>\<open>parseCsv\<close>\<close>

text \<open>The four passes of the row function (lines 44-101), each over the names of the
  attributes of its kind, and the publish-state step (lines 104-110). \<open>JSON.parse\<close> and
  \<open>new Date\<close> are called inside a \<open>try\<close>, whose \<open>catch\<close> goes on; \<open>Number\<close>
  (line 92) is not, and what it raises ends the parser.\<close>

fun parse_relation_fields :: "'s env \<Rightarrow> string list \<Rightarrow> obj \<Rightarrow> obj" where
  "parse_relation_fields env [] datum = datum"
| "parse_relation_fields env (name # names) datum =
     parse_relation_fields env names
       (let v = obj_get datum name
        in if truthy v \<and> v \<noteq> JStr [] \<and> v \<noteq> JStr ''null'' \<and> v \<noteq> JStr ''undefined'' then
             (case JSON_parse env v of
                Inr x \<Rightarrow> obj_set datum name x
              | Inl e \<Rightarrow> obj_set datum name JNull)
           else obj_set datum name JNull)"

fun parse_date_fields :: "'s env \<Rightarrow> string list \<Rightarrow> obj \<Rightarrow> obj" where
  "parse_date_fields env [] datum = datum"
| "parse_date_fields env (name # names) datum =
     parse_date_fields env names
       (let v = obj_get datum name
        in if truthy v \<and> v \<noteq> JStr ''null'' \<and> v \<noteq> JStr [] then
             (case Date_toISOString env v of
                Inr (Some isoString) \<Rightarrow> obj_set datum name (JStr isoString)
              | Inr None \<Rightarrow> datum
              | Inl e \<Rightarrow> datum)
           else if v = JStr ''null'' \<or> v = JStr [] then obj_set datum name JNull
           else datum)"

fun parse_boolean_fields :: "string list \<Rightarrow> obj \<Rightarrow> obj" where
  "parse_boolean_fields [] datum = datum"
| "parse_boolean_fields (name # names) datum =
     parse_boolean_fields names
       (let v = obj_get datum name
        in if v \<noteq> JUndefined then
             (if v = JStr ''true'' \<or> v = JStr ''1'' \<or> v = JBool True then obj_set datum name (JBool True)
              else if v = JStr ''false'' \<or> v = JStr ''0'' \<or> v = JBool False then obj_set datum name (JBool False)
              else if v = JStr ''null'' \<or> v = JStr [] then obj_set datum name JNull
              else datum)
           else datum)"

fun parse_number_fields :: "'s env \<Rightarrow> string list \<Rightarrow> obj \<Rightarrow> error + obj" where
  "parse_number_fields env [] datum = Inr datum"
| "parse_number_fields env (name # names) datum =
     (let v = obj_get datum name
      in if v \<noteq> JUndefined \<and> v \<noteq> JStr [] \<and> v \<noteq> JStr ''null'' then
           (case Number env v of
              Inl e \<Rightarrow> Inl e
            | Inr (Some numValue) \<Rightarrow> parse_number_fields env names (obj_set datum name (JNum numValue))
            | Inr None \<Rightarrow> parse_number_fields env names (obj_set datum name JNull))
         else if v = JStr ''null'' \<or> v = JStr [] then
           parse_number_fields env names (obj_set datum name JNull)
         else parse_number_fields env names datum)"

definition handle_publishedAt :: "bool \<Rightarrow> bool \<Rightarrow> obj \<Rightarrow> obj" where
  "handle_publishedAt hasDP importAsDrafts datum =
     (if hasDP \<and> importAsDrafts then obj_set datum ''publishedAt'' JNull
      else if \<not> hasDP \<and> obj_get datum ''publishedAt'' \<noteq> JUndefined then obj_delete datum ''publishedAt''
      else datum)"

definition numberTypes :: "string list" where
  "numberTypes = [''integer'', ''biginteger'', ''float'', ''decimal'']"

definition parseCsv_row :: "'s env \<Rightarrow> string \<Rightarrow> bool \<Rightarrow> obj \<Rightarrow> error + obj" where
  "parseCsv_row env slug importAsDrafts datum =
     (case parse_number_fields env
             (map attr_name (getModelAttributes env slug numberTypes))
             (parse_boolean_fields
                (map attr_name (getModelAttributes env slug [''boolean'']))
                (parse_date_fields env
                   (map attr_name (getModelAttributes env slug [''datetime'', ''date'', ''time'']))
                   (parse_relation_fields env
                      (map attr_name (getModelAttributes env slug relationTypes))
                      datum))) of
        Inl e \<Rightarrow> Inl e
      | Inr numbered \<Rightarrow> Inr (handle_publishedAt (hasDraftAndPublish env slug) importAsDrafts numbered))"

text \<open>\<open>data.map\<close>: the rows in order; the first exception ends the loop.\<close>

fun parseCsv_rows :: "'s env \<Rightarrow> string \<Rightarrow> bool \<Rightarrow> obj list \<Rightarrow> error + jsval list" where
  "parseCsv_rows env slug importAsDrafts [] = Inr []"
| "parseCsv_rows env slug importAsDrafts (datum # rest) =
     (case parseCsv_row env slug importAsDrafts datum of
        Inl e \<Rightarrow> Inl e
      | Inr parsed \<Rightarrow>
          (case parseCsv_rows env slug importAsDrafts rest of
             Inl e \<Rightarrow> Inl e
           | Inr ps \<Rightarrow> Inr (JObj parsed # ps)))"

text \<open>An omitted \<open>importAsDrafts\<close> is \<open>true\<close> (\<open>{ slug, importAsDrafts = true }\<close>).\<close>

definition parseCsv :: "'s env \<Rightarrow> jsval \<Rightarrow> string \<Rightarrow> bool option \<Rightarrow> error + jsval" where
  "parseCsv env dataRaw slug importAsDrafts =
     (case csvtojson env dataRaw of
        Inl e \<Rightarrow> Inl e
      | Inr rows \<Rightarrow>
          (case parseCsv_rows env slug (case importAsDrafts of None \<Rightarrow> True | Some b \<Rightarrow> b) rows of
             Inl e \<Rightarrow> Inl e
           | Inr data \<Rightarrow> Inr (JArr data)))"

subsection \<open>\<open>parseJson\<close>\<close>

text \<open>\<open>const { publishedAt, ...rest } = item\<close> raises for \<open>null\<close> and \<open>undefined\<close>.\<close>

fun rest_without_publishedAt :: "jsval list \<Rightarrow> error + jsval list" where
  "rest_without_publishedAt [] = Inr []"
| "rest_without_publishedAt (item # items) =
     (if nullish item then Inl TypeError
      else case rest_without_publishedAt items of
        Inl e \<Rightarrow> Inl e
      | Inr rs \<Rightarrow> Inr (JObj (obj_delete (spread item) ''publishedAt'') # rs))"

definition parseJson :: "'s env \<Rightarrow> jsval \<Rightarrow> string \<Rightarrow> bool option \<Rightarrow> error + jsval" where
  "parseJson env dataRaw slug importAsDrafts =
     (case JSON_parse env dataRaw of
        Inl e \<Rightarrow> Inl e
      | Inr data \<Rightarrow>
          if hasDraftAndPublish env slug \<and> (case importAsDrafts of None \<Rightarrow> True | Some b \<Rightarrow> b) then
            (case data of
               JArr items \<Rightarrow>
                 Inr (JArr (map (\<lambda>item. JObj (obj_set (spread item) ''publishedAt'' JNull)) items))
             | _ \<Rightarrow> if typeof data = ''object'' then js_set data ''publishedAt'' JNull else Inr data)
          else if \<not> hasDraftAndPublish env slug then
            (case data of
               JArr items \<Rightarrow>
                 (case rest_without_publishedAt items of Inl e \<Rightarrow> Inl e | Inr rs \<Rightarrow> Inr (JArr rs))
             | _ \<Rightarrow>
                 if typeof data = ''object'' then
                   (if nullish data then Inl TypeError
                    else if js_get data ''publishedAt'' \<noteq> JUndefined
                    then Inr (js_delete data ''publishedAt'') else Inr data)
                 else Inr data)
          else Inr data)"

subsection \<open>\<open>parseJso\<close>\<close>

definition parseJso :: "jsval \<Rightarrow> error + jsval" where
  "parseJso dataRaw =
     (if \<not> isObjectSafe dataRaw \<and> \<not> isArraySafe dataRaw
      then Inl (Error ''To import JSO, data must be an array or an object'')
      else Inr dataRaw)"

subsection \<open>\<open>parsePostgresJson\<close>\<close>

text \<open>
  The \<open>try\<close> block of the row function (lines 185-230), in the order in which it may
  raise: \<open>item.name\<close> for a row that is \<open>null\<close>, \<open>JSON.stringify\<close>, \<open>new Date\<close>, and
  the log line of line 228, which writes \<open>item.name\<close> into a template literal.
\<close>

definition transform_item :: "'s env \<Rightarrow> bool \<Rightarrow> bool \<Rightarrow> jsval \<Rightarrow> error + jsval" where
  "transform_item env hasDP importAsDrafts item =
     (if nullish item then Inl TypeError
      else
        (case (if typeof (js_get item ''configuration'') = ''string''
               then Inr (js_get item ''configuration'')
               else JSON_stringify env (js_get item ''configuration'')) of
           Inl e \<Rightarrow> Inl e
         | Inr configuration \<Rightarrow>
             (let transformed =
                    [(''name'', js_get item ''name''),
                     (''configuration'', configuration),
                     (''version'',
                        if truthy (js_get item ''version'') then js_get item ''version'' else JStr ''main'')]
              in case (if hasDP then
                         (if importAsDrafts then Inr (obj_set transformed ''publishedAt'' JNull)
                          else if js_get item ''published_at'' \<noteq> JUndefined then
                            (if js_get item ''published_at'' = JNull
                             then Inr (obj_set transformed ''publishedAt'' JNull)
                             else case Date_toISOString env (js_get item ''published_at'') of
                               Inl e \<Rightarrow> Inl e
                             | Inr (Some isoString) \<Rightarrow> Inr (obj_set transformed ''publishedAt'' (JStr isoString))
                             | Inr None \<Rightarrow> Inr transformed)
                          else Inr transformed)
                       else Inr transformed) of
                   Inl e \<Rightarrow> Inl e
                 | Inr dated \<Rightarrow>
                     (case template_error env (js_get item ''name'') of
                        Some e \<Rightarrow> Inl e
                      | None \<Rightarrow> Inr (JObj dated)))))"

text \<open>The \<open>catch\<close> of the row function (lines 231-234) writes \<open>item.name\<close> to the log
  before it raises again what it caught; the exception of that log line takes its place.\<close>

definition transform_item_catch :: "'s env \<Rightarrow> jsval \<Rightarrow> error \<Rightarrow> error" where
  "transform_item_catch env item itemError =
     (if nullish item then TypeError
      else case template_error env (js_get item ''name'') of
        Some e \<Rightarrow> e
      | None \<Rightarrow> itemError)"

fun transform_items :: "'s env \<Rightarrow> bool \<Rightarrow> bool \<Rightarrow> jsval list \<Rightarrow> error + jsval list" where
  "transform_items env hasDP importAsDrafts [] = Inr []"
| "transform_items env hasDP importAsDrafts (item # items) =
     (case transform_item env hasDP importAsDrafts item of
        Inl e \<Rightarrow> Inl (transform_item_catch env item e)
      | Inr t \<Rightarrow>
          (case transform_items env hasDP importAsDrafts items of
             Inl e \<Rightarrow> Inl e
           | Inr ts \<Rightarrow> Inr (t # ts)))"

definition parsePostgresJson :: "'s env \<Rightarrow> jsval \<Rightarrow> string \<Rightarrow> bool option \<Rightarrow> error + jsval" where
  "parsePostgresJson env dataRaw slug importAsDrafts =
     (case (case JSON_parse env dataRaw of
              Inl e \<Rightarrow> Inl e
            | Inr data \<Rightarrow>
                transform_items env (hasDraftAndPublish env slug)
                  (case importAsDrafts of None \<Rightarrow> True | Some b \<Rightarrow> b)
                  (if \<not> isArraySafe data then [data] else toArray data)) of
        Inl e \<Rightarrow> Inl (Error (''Failed to parse PostgreSQL JSON: '' @ message env e))
      | Inr transformedData \<Rightarrow> Inr (JArr transformedData))"

subsection \<open>\<open>parseInputData\<close>\<close>

text \<open>
  \<open>inputFormatToParser\<close> is an object literal with the four keys \<open>csv\<close>, \<open>jso\<close>, \<open>json\<close>
  and \<open>postgres\<close>. \<open>inputFormatToParser[format]\<close> reads a key the object does not own
  from its prototype, \<open>Object.prototype\<close>, whose members are all truthy; any other key
  reads as \<open>undefined\<close>.
\<close>

datatype parser = Csv | Jso | Json | Postgres | Inherited string

definition inputFormatToParser :: "string \<Rightarrow> parser option" where
  "inputFormatToParser format =
     (if format = ''csv'' then Some Csv
      else if format = ''jso'' then Some Jso
      else if format = ''json'' then Some Json
      else if format = ''postgres'' then Some Postgres
      else if format \<in> set Object_prototype_keys then Some (Inherited format)
      else None)"

definition InputFormats :: "string list" where
  "InputFormats = [''csv'', ''jso'', ''json'', ''postgres'']"

definition parseInputData :: "'s env \<Rightarrow> string \<Rightarrow> jsval \<Rightarrow> string \<Rightarrow> bool option \<Rightarrow> error + jsval" where
  "parseInputData env format dataRaw slug importAsDrafts =
     (case inputFormatToParser format of
        None \<Rightarrow> Inl (Error (''Data input format '' @ format @ '' is not supported.''))
      | Some Csv \<Rightarrow> parseCsv env dataRaw slug (Some (case importAsDrafts of None \<Rightarrow> True | Some b \<Rightarrow> b))
      | Some Jso \<Rightarrow> parseJso dataRaw
      | Some Json \<Rightarrow> parseJson env dataRaw slug (Some (case importAsDrafts of None \<Rightarrow> True | Some b \<Rightarrow> b))
      | Some Postgres \<Rightarrow>
          parsePostgresJson env dataRaw slug (Some (case importAsDrafts of None \<Rightarrow> True | Some b \<Rightarrow> b))
      | Some (Inherited k) \<Rightarrow> Object_prototype env k dataRaw)"

section \<open>The import orchestrator\<close>

text \<open>\<open>res\<close> of one iteration: \<open>{ success: true }\<close> or
  \<open>{ success: false, error: err.message, args: [datum] }\<close>.\<close>

datatype processed = Succeeded | Failed string jsval

fun success :: "processed \<Rightarrow> bool" where
  "success Succeeded = True"
| "success (Failed e d) = False"

text \<open>\<open>processed.filter((p) => !p.success).map((f) => ({ error: f.error, data: f.args[0] }))\<close>\<close>

fun failure_of :: "processed \<Rightarrow> failure" where
  "failure_of (Failed e d) = \<lparr>f_error = e, f_data = d\<rparr>"
| "failure_of Succeeded = \<lparr>f_error = [], f_data = JUndefined\<rparr>"

definition failures_of :: "processed list \<Rightarrow> failure list" where
  "failures_of ps = map failure_of (filter (\<lambda>p. \<not> success p) ps)"

subsection \<open>\<open>importMedia\<close>\<close>

fun importMedia_loop :: "'s env \<Rightarrow> jsval \<Rightarrow> jsval list \<Rightarrow> processed list \<Rightarrow> 's world \<Rightarrow> processed list \<times> 's world" where
  "importMedia_loop env user [] ps w = (ps, w)"
| "importMedia_loop env user (fileDatum # rest) ps w =
     (case findOrImportFile env fileDatum user (JArr [JStr ''any'']) w of
        (Inl e, w1) \<Rightarrow> importMedia_loop env user rest (ps @ [Failed (message env e) fileDatum]) w1
      | (Inr f, w1) \<Rightarrow> importMedia_loop env user rest (ps @ [Succeeded]) w1)"

definition importMedia :: "'s env \<Rightarrow> jsval \<Rightarrow> jsval list \<Rightarrow> 's world \<Rightarrow> failure list \<times> 's world" where
  "importMedia env user fileData w =
     (case importMedia_loop env user fileData [] w of (ps, w1) \<Rightarrow> (failures_of ps, w1))"

subsection \<open>\<open>importOtherSlug\<close>\<close>

text \<open>\<open>datum[idField] || datum.name || datum.id || 'unknown'\<close>, the value that line 89
  writes to the log. An \<open>idField\<close> left out is \<open>undefined\<close>, which as a key is the name
  \<open>undefined\<close>.\<close>

definition item_label :: "jsval \<Rightarrow> string option \<Rightarrow> jsval" where
  "item_label datum idField =
     (let byId = js_get datum (case idField of None \<Rightarrow> ''undefined'' | Some f \<Rightarrow> f)
      in if truthy byId then byId
         else if truthy (js_get datum ''name'') then js_get datum ''name''
         else if truthy (js_get datum ''id'') then js_get datum ''id''
         else JStr ''unknown'')"

text \<open>
  One iteration of the loop (lines 86-104): the \<open>try\<close> block and its \<open>catch\<close>. The log
  line of line 89 is inside the \<open>try\<close>: it reads \<open>datum[idField]\<close>, which raises for a
  \<open>datum\<close> that is \<open>null\<close> or \<open>undefined\<close>, and writes the record's label into a
  template literal, which may raise as well; both end the iteration before the upsert.
  The failure holds \<open>datum\<close> itself, as the failed call left it.
\<close>

definition process_datum ::
  "nat \<Rightarrow> 's env \<Rightarrow> jsval \<Rightarrow> string \<Rightarrow> string option \<Rightarrow> bool \<Rightarrow> jsval \<Rightarrow> 's world \<Rightarrow> (processed \<times> 's world) option" where
  "process_datum n env user slug idField hasDP datum w =
     (if nullish datum then Some (Failed (message env TypeError) datum, w)
      else case template_error env (item_label datum idField) of
        Some e \<Rightarrow> Some (Failed (message env e) datum, w)
      | None \<Rightarrow>
          (case updateOrCreate n env user slug
                  (if \<not> hasDP \<and> js_get datum ''publishedAt'' \<noteq> JUndefined
                   then js_delete datum ''publishedAt'' else datum)
                  idField w of
             None \<Rightarrow> None
           | Some (Inl e, d, w1) \<Rightarrow> Some (Failed (message env e) d, w1)
           | Some (Inr entry, d, w1) \<Rightarrow> Some (Succeeded, w1)))"

fun importOtherSlug_loop ::
  "nat \<Rightarrow> 's env \<Rightarrow> jsval \<Rightarrow> string \<Rightarrow> string option \<Rightarrow> bool \<Rightarrow> jsval list \<Rightarrow> processed list \<Rightarrow> 's world \<Rightarrow> (processed list \<times> 's world) option" where
  "importOtherSlug_loop n env user slug idField hasDP [] ps w = Some (ps, w)"
| "importOtherSlug_loop n env user slug idField hasDP (datum # rest) ps w =
     (case process_datum n env user slug idField hasDP datum w of
        None \<Rightarrow> None
      | Some (res, w1) \<Rightarrow> importOtherSlug_loop n env user slug idField hasDP rest (ps @ [res]) w1)"

text \<open>\<open>importAsDrafts\<close> reaches \<open>importOtherSlug\<close> and is written to the log only.\<close>

definition importOtherSlug ::
  "nat \<Rightarrow> 's env \<Rightarrow> jsval list \<Rightarrow> string \<Rightarrow> jsval \<Rightarrow> string option \<Rightarrow> bool \<Rightarrow> bool \<Rightarrow> 's world \<Rightarrow> (failure list \<times> 's world) option" where
  "importOtherSlug n env data slug user idField hasDP importAsDrafts w =
     (case importOtherSlug_loop n env user slug idField hasDP data [] w of
        None \<Rightarrow> None
      | Some (ps, w1) \<Rightarrow> Some (failures_of ps, w1))"

subsection \<open>\<open>importData\<close>\<close>

text \<open>Lines 35-46: the records to import. A \<open>jso\<close> input is taken as it is; any other
  is parsed, in draft mode only if the model supports draft and publish.\<close>

definition importData_records ::
  "'s env \<Rightarrow> jsval \<Rightarrow> string \<Rightarrow> string \<Rightarrow> bool option \<Rightarrow> error + jsval list" where
  "importData_records env dataRaw slug format importAsDrafts =
     (case (if format = ''jso'' then Inr dataRaw
            else parseInputData env format dataRaw slug
                   (Some (if hasDraftAndPublish env slug
                          then (case importAsDrafts of None \<Rightarrow> True | Some b \<Rightarrow> b) else False))) of
        Inl e \<Rightarrow> Inl e
      | Inr data \<Rightarrow> Inr (toArray data))"

definition importData ::
  "nat \<Rightarrow> 's env \<Rightarrow> jsval \<Rightarrow> string \<Rightarrow> string \<Rightarrow> jsval \<Rightarrow> string option \<Rightarrow> bool option \<Rightarrow> 's world \<Rightarrow> ((error + failure list) \<times> 's world) option" where
  "importData n env dataRaw slug format user idField importAsDrafts w =
     (case importData_records env dataRaw slug format importAsDrafts of
        Inl e \<Rightarrow> Some (Inl e, w)
      | Inr data \<Rightarrow>
          if slug = MEDIA env then
            (case importMedia env user data w of (fs, w1) \<Rightarrow> Some (Inr fs, w1))
          else
            (case importOtherSlug n env data slug user idField
                    (hasDraftAndPublish env slug)
                    (case importAsDrafts of None \<Rightarrow> True | Some b \<Rightarrow> b) w of
               None \<Rightarrow> None
             | Some (fs, w1) \<Rightarrow> Some (Inr fs, w1)))"

section \<open>The admin controller\<close>

text \<open>\<open>ctx.request.body.data\<close>; a field that the request leaves out is \<open>None\<close>.\<close>

record request =
  req_slug :: string
  req_data :: jsval
  req_format :: string
  req_fileType :: "string option"
  req_idField :: "string option"
  req_importAsDrafts :: "bool option"

datatype response = Forbidden | Body "failure list"

text \<open>\<open>hasPermissions(ctx)\<close> asks the content manager's permission checker; its answer is
  the argument \<open>permitted\<close>.\<close>

definition actualFormat :: "request \<Rightarrow> string" where
  "actualFormat r =
     (if req_fileType r = Some ''postgres'' then ''postgres''
      else if req_fileType r = Some ''csv'' then ''csv''
      else if req_fileType r = Some ''strapi'' \<and> req_format r = ''json'' then ''json''
      else req_format r)"

text \<open>
  Lines 33-39, the log lines of the parsed content, which are outside any \<open>try\<close>: for a
  non-empty array, \<open>Object.keys(fileContent[0])\<close> and \<open>fileContent[0].name\<close> raise for a
  first item that is \<open>null\<close> or \<open>undefined\<close>, as \<open>fileContent[1].name\<close> does for the
  second; and each name is written into a template literal.
\<close>

definition parsed_log :: "'s env \<Rightarrow> jsval \<Rightarrow> error option" where
  "parsed_log env fileContent =
     (case fileContent of
        JArr (first # rest) \<Rightarrow>
          if nullish first then Some TypeError
          else
            (case template_error env (js_get first ''name'') of
               Some e \<Rightarrow> Some e
             | None \<Rightarrow>
                 (case rest of
                    [] \<Rightarrow> None
                  | second # others \<Rightarrow>
                      if nullish second then Some TypeError
                      else template_error env (js_get second ''name'')))
      | _ \<Rightarrow> None)"

definition importData_controller ::
  "nat \<Rightarrow> 's env \<Rightarrow> bool \<Rightarrow> jsval \<Rightarrow> request \<Rightarrow> 's world \<Rightarrow> ((error + response) \<times> 's world) option" where
  "importData_controller n env permitted user r w =
     (if \<not> permitted then Some (Inr Forbidden, w)
      else
        (let importAsDrafts = (case req_importAsDrafts r of None \<Rightarrow> True | Some b \<Rightarrow> b)
         in case parseInputData env (actualFormat r) (req_data r) (req_slug r) (Some importAsDrafts) of
              Inl e \<Rightarrow> Some (Inl e, w)
            | Inr fileContent \<Rightarrow>
                (case parsed_log env fileContent of
                   Some e \<Rightarrow> Some (Inl e, w)
                 | None \<Rightarrow>
                     if opt_version fileContent = JNum 2 then
                       (case importDataV2 env fileContent (req_slug r) user (req_idField r) importAsDrafts (store w) of
                          (Inl e, s) \<Rightarrow> Some (Inl e, w\<lparr>store := s\<rparr>)
                        | (Inr fs, s) \<Rightarrow> Some (Inr (Body fs), w\<lparr>store := s\<rparr>))
                     else
                       (case (if actualFormat r = ''postgres''
                              then importData n env fileContent (req_slug r) ''jso'' user (req_idField r)
                                     (Some importAsDrafts) w
                              else importData n env (req_data r) (req_slug r) (actualFormat r) user (req_idField r)
                                     (Some importAsDrafts) w) of
                          None \<Rightarrow> None
                        | Some (Inl e, w1) \<Rightarrow> Some (Inl e, w1)
                        | Some (Inr fs, w1) \<Rightarrow> Some (Inr (Body fs), w1)))))"

section \<open>A schema and a store to run the service on\<close>

text \<open>
  The theorems below hold for every schema and every store. To run the service on
  concrete records they are applied to this schema and to a store in memory: a list of
  rows, each a slug and an entity, where \<open>create\<close> numbers a new entity and refuses a
  second entity of the same \<open>name\<close> in a model. Of the engine it has what the examples
  need: an object that owns a property \<open>toString\<close> (which, decoded from text, is no
  function) converts neither to text nor to a number.
\<close>

definition attr :: "string \<Rightarrow> string \<Rightarrow> string \<Rightarrow> attribute" where
  "attr n t tg =
     \<lparr>attr_name = n, attr_type = t, repeatable = False, multiple = False,
      component = tg, target = tg, allowedTypes = JUndefined\<rparr>"

definition test_getModel :: "string \<Rightarrow> model option" where
  "test_getModel slug =
     (if slug = ''article'' then
        Some \<lparr>kind = ''collectionType'', draftAndPublish = True,
              attributes = [attr ''title'' ''string'' [], attr ''views'' ''integer'' [],
                            attr ''author'' ''relation'' ''author'',
                            attr ''editor'' ''relation'' ''editor'',
                            attr ''createdBy'' ''relation'' ''user'']\<rparr>
      else if slug = ''author'' then
        Some \<lparr>kind = ''collectionType'', draftAndPublish = False,
              attributes = [attr ''name'' ''string'' []]\<rparr>
      else if slug = ''editor'' then
        Some \<lparr>kind = ''collectionType'', draftAndPublish = True,
              attributes = [attr ''name'' ''string'' []]\<rparr>
      else if slug = ''person'' then
        Some \<lparr>kind = ''collectionType'', draftAndPublish = False,
              attributes = [attr ''name'' ''string'' [], attr ''mentor'' ''relation'' ''person'']\<rparr>
      else None)"

type_synonym mem = "(string \<times> jsval) list"

text \<open>The fields of an entity or of a filter.\<close>

fun fields :: "jsval \<Rightarrow> obj" where
  "fields (JObj kvs) = kvs"
| "fields v = []"

definition mem_matches :: "jsval \<Rightarrow> jsval \<Rightarrow> bool" where
  "mem_matches wh e = list_all (\<lambda>p. js_get e (fst p) = snd p) (fields wh)"

definition mem_create :: "string \<Rightarrow> jsval \<Rightarrow> mem \<Rightarrow> (error + jsval) \<times> mem" where
  "mem_create slug data s =
     (if js_get data ''name'' \<noteq> JUndefined
         \<and> filter (\<lambda>p. fst p = slug \<and> js_get (snd p) ''name'' = js_get data ''name'') s \<noteq> []
      then (Inl (Error ''This attribute must be unique''), s)
      else
        (let e = (if truthy (js_get data ''id'') then data
                  else JObj (obj_set (fields data) ''id'' (JNum (int (length s) + 1))))
         in (Inr e, s @ [(slug, e)])))"

definition mem_findOne :: "string \<Rightarrow> jsval \<Rightarrow> mem \<Rightarrow> (error + jsval) \<times> mem" where
  "mem_findOne slug wh s =
     (Inr (case filter (\<lambda>p. fst p = slug \<and> mem_matches wh (snd p)) s of
             [] \<Rightarrow> JNull
           | p # ps \<Rightarrow> snd p), s)"

definition mem_findMany :: "string \<Rightarrow> mem \<Rightarrow> (error + jsval list) \<times> mem" where
  "mem_findMany slug s = (Inr (map snd (filter (\<lambda>p. fst p = slug) s)), s)"

definition mem_update :: "string \<Rightarrow> jsval \<Rightarrow> jsval \<Rightarrow> mem \<Rightarrow> (error + jsval) \<times> mem" where
  "mem_update slug i data s =
     (case filter (\<lambda>p. fst p = slug \<and> js_get (snd p) ''id'' = i) s of
        [] \<Rightarrow> (Inr JNull, s)
      | p # ps \<Rightarrow>
          (let e = JObj (obj_set (ObjectBuilder_extend (fields (snd p)) (fields data)) ''id'' i)
           in (Inr e, map (\<lambda>q. if fst q = slug \<and> js_get (snd q) ''id'' = i then (slug, e) else q) s)))"

definition mem_file :: "jsval \<Rightarrow> jsval \<Rightarrow> jsval \<Rightarrow> mem \<Rightarrow> (error + jsval) \<times> mem" where
  "mem_file fileDatum user allowed s =
     (if truthy (js_get fileDatum ''url'') then (Inr (JObj [(''id'', JNum 1)]), s)
      else (Inl (Error ''File url is missing''), s))"

text \<open>The texts the examples decode, and what \<open>JSON.parse\<close> and \<open>csvtojson\<close> answer
  for them. Any other text is malformed. \<open>csvtojson\<close> nests a column whose header has a
  dot: the column \<open>views.toString\<close> is the property \<open>toString\<close> of the object
  \<open>views\<close>.\<close>

definition json_nested_editor :: string where
  \<open>json_nested_editor = ''[{"title":"t","editor":{"name":"ed","publishedAt":"2020-01-01"}}]''\<close>

definition json_nested_person :: string where
  \<open>json_nested_person = ''[{"name":"ann","publishedAt":"2021-05-05","mentor":{"name":"bob","publishedAt":"2020-01-01"}}]''\<close>

definition json_published :: string where
  \<open>json_published = ''[{"title":"t","publishedAt":"2020-01-01"}]''\<close>

definition csv_rows :: string where
  \<open>csv_rows = ''title,author,publishedAt
a,{bad,2020-01-01''\<close>

definition csv_dotted :: string where
  \<open>csv_dotted = ''title,author,views.toString
a,,5''\<close>

definition test_JSON_parse :: "jsval \<Rightarrow> error + jsval" where
  "test_JSON_parse v =
     (if v = JStr json_nested_editor then
        Inr (JArr [JObj [(''title'', JStr ''t''),
                         (''editor'', JObj [(''name'', JStr ''ed''), (''publishedAt'', JStr ''2020-01-01'')])]])
      else if v = JStr json_nested_person then
        Inr (JArr [JObj [(''name'', JStr ''ann''), (''publishedAt'', JStr ''2021-05-05''),
                         (''mentor'', JObj [(''name'', JStr ''bob''), (''publishedAt'', JStr ''2020-01-01'')])]])
      else if v = JStr json_published then
        Inr (JArr [JObj [(''title'', JStr ''t''), (''publishedAt'', JStr ''2020-01-01'')]])
      else if v = JStr ''7'' then Inr (JNum 7)
      else Inl (Error ''Unexpected token''))"

definition test_csvtojson :: "jsval \<Rightarrow> error + obj list" where
  "test_csvtojson v =
     (if v = JStr csv_rows then
        Inr [[(''title'', JStr ''a''), (''author'', JStr ''{bad''), (''publishedAt'', JStr ''2020-01-01'')]]
      else if v = JStr csv_dotted then
        Inr [[(''title'', JStr ''a''), (''author'', JStr []), (''views'', JObj [(''toString'', JStr ''5'')])]]
      else Inr [])"

definition test_Object_prototype :: "string \<Rightarrow> jsval \<Rightarrow> error + jsval" where
  "test_Object_prototype k v =
     (if k = ''toString'' then Inr (JStr ''[object Undefined]'') else Inl TypeError)"

definition test_ToString :: "jsval \<Rightarrow> error + string" where
  "test_ToString v =
     (if ''toString'' \<in> set (map fst (fields v))
      then Inl (Error ''Cannot convert object to primitive value'')
      else Inr ''[object Object]'')"

definition test_Number :: "jsval \<Rightarrow> error + int option" where
  "test_Number v =
     (if ''toString'' \<in> set (map fst (fields v))
      then Inl (Error ''Cannot convert object to primitive value'')
      else Inr None)"

definition test_env :: "mem env" where
  "test_env =
     \<lparr>getModel = test_getModel, db_create = mem_create, db_findOne = mem_findOne,
      db_findMany = mem_findMany, db_update = mem_update, file_findOrImport = mem_file,
      MEDIA = ''media'', csvtojson = test_csvtojson, JSON_parse = test_JSON_parse,
      JSON_stringify = (\<lambda>v. Inr v), Date_toISOString = (\<lambda>v. Inr None), Number = test_Number,
      ToString = test_ToString, TypeError_message = ''Cannot read properties of undefined'',
      Object_prototype = test_Object_prototype,
      importDataV2 = (\<lambda>fileContent slug user idField importAsDrafts s. (Inr [], s))\<rparr>"

definition admin :: jsval where
  "admin = JObj [(''id'', JNum 7)]"

definition w0 :: "mem world" where
  "w0 = \<lparr>store = [], calls = []\<rparr>"

text \<open>A store that holds one author, and one that holds an author of rank 0.\<close>

definition w_bob :: "mem world" where
  "w_bob = \<lparr>store = [(''author'', JObj [(''name'', JStr ''bob''), (''id'', JNum 1)])], calls = []\<rparr>"

definition w_rank :: "mem world" where
  "w_rank = \<lparr>store = [(''author'', JObj [(''name'', JStr ''bob''), (''rank'', JNum 0), (''id'', JNum 1)])],
             calls = []\<rparr>"

section \<open>What the claims speak of\<close>

text \<open>The record a call hands to the store to be written, and the model it is written to.\<close>

fun written :: "call \<Rightarrow> (string \<times> jsval) option" where
  "written (Create slug d) = Some (slug, d)"
| "written (Update slug i d) = Some (slug, d)"
| "written c = None"

text \<open>The key is among the record's own properties.\<close>

definition has_own :: "jsval \<Rightarrow> string \<Rightarrow> bool" where
  "has_own v k = (k \<in> set (map fst (spread v)))"

text \<open>
  The identifiers that a sequence of entries resolves to, in the words of the
  specification: an entry that is a reference number is kept as it is; an entry that is a
  structured object is upserted against the target model and the identifier of the entity
  it was upserted to is collected, if it has one; any other entry gives nothing. The
  upserts are made in the order of the entries, each in the world that the one before it
  left, and the first that raises ends the resolution.
\<close>

fun resolved_ids ::
  "'s upsert \<Rightarrow> string \<Rightarrow> jsval list \<Rightarrow> 's world \<Rightarrow> ((error + jsval list) \<times> 's world) option" where
  "resolved_ids rec slug [] w = Some (Inr [], w)"
| "resolved_ids rec slug (x # xs) w =
     (if typeof x = ''number'' then
        (case resolved_ids rec slug xs w of
           None \<Rightarrow> None
         | Some (Inl e, w1) \<Rightarrow> Some (Inl e, w1)
         | Some (Inr ids, w1) \<Rightarrow> Some (Inr (x # ids), w1))
      else if isObjectSafe x then
        (case rec slug x None w of
           None \<Rightarrow> None
         | Some (Inl e, d, w1) \<Rightarrow> Some (Inl e, w1)
         | Some (Inr entry, d, w1) \<Rightarrow>
             (case resolved_ids rec slug xs w1 of
                None \<Rightarrow> None
              | Some (Inl e, w2) \<Rightarrow> Some (Inl e, w2)
              | Some (Inr ids, w2) \<Rightarrow>
                  Some (Inr ((if truthy (opt_id entry) then [opt_id entry] else []) @ ids), w2)))
      else resolved_ids rec slug xs w)"

text \<open>The call returns: its nested calls stayed within the bound.\<close>

definition returns :: "'a option \<Rightarrow> bool" where
  "returns r = (r \<noteq> None)"

section \<open>Unfolding the examples\<close>


lemmas test_defs =
  test_env_def test_getModel_def attr_def mem_matches_def mem_create_def mem_findOne_def
  mem_findMany_def mem_update_def mem_file_def test_JSON_parse_def test_csvtojson_def
  test_Object_prototype_def test_ToString_def test_Number_def admin_def w0_def w_bob_def
  w_rank_def json_nested_editor_def json_nested_person_def json_published_def csv_rows_def
  csv_dotted_def inherited_def Object_prototype_keys_def

section \<open>Reading and writing properties\<close>

lemma obj_get_set: "obj_get (obj_set kvs k v) k' = (if k' = k then v else obj_get kvs k')"
  by (induction kvs) auto

lemma obj_get_delete: "obj_get (obj_delete kvs k) k' = (if k' = k then inherited k else obj_get kvs k')"
  by (induction kvs) auto

lemma keys_obj_set: "set (map fst (obj_set kvs k v)) = insert k (set (map fst kvs))"
  by (induction kvs) auto

lemma keys_obj_delete: "set (map fst (obj_delete kvs k)) = set (map fst kvs) - {k}"
  by (induction kvs) auto

lemma inherited_other: "k \<notin> set Object_prototype_keys \<Longrightarrow> inherited k = JUndefined"
  by (simp add: inherited_def)

lemma inherited_truthy: "k \<in> set Object_prototype_keys \<Longrightarrow> truthy (inherited k)"
  by (simp add: inherited_def)

lemma template_error_falsy: "\<not> truthy v \<Longrightarrow> template_error env v = None"
  by (cases v) simp_all

section \<open>The upsert of a collection-kind record\<close>

lemma ObjectBuilder_extend_one: "ObjectBuilder_extend [] [(k, v)] = [(k, v)]"
  by (simp add: ObjectBuilder_extend_def)

text \<open>
  C1, as the code has it. For a model of collection kind, a record, an identifying field
  that is not the name of a member that every object inherits, and a log line of the
  lookup (line 147) that can be written: the write step of \<open>updateOrCreate\<close> reads the
  record's identifying field. If the value is truthy it asks the store for an entity with
  that value in that field (\<open>findOne\<close>); if the store answers with one (whose \<open>id\<close>
  can be written to the log), the only write is an \<open>update\<close> addressed by that entity's
  own \<open>id\<close>, and no \<open>create\<close> is made; if the store answers with none, the only write
  is one \<open>create\<close>. If the value is missing or falsy (\<open>0\<close>, \<open>false\<close>, the empty
  text, \<open>null\<close>), no lookup is made and the only call is one \<open>create\<close>. The record
  written is the record given, without its \<open>id\<close> when the identifying field is another
  one.
\<close>

theorem upsert_collection_by_identifying_field:
  assumes "getModel env slug = Some m" and "kind m \<noteq> ''singleType''"
    and "\<not> nullish data"
    and "idField \<notin> set Object_prototype_keys"
    and "where_log env (if truthy (js_get data idField) then [(idField, js_get data idField)] else [])
           (js_get data idField) = None"
    and "data1 = (if idField \<noteq> ''id'' then js_delete data ''id'' else data)"
    and "wh = JObj [(idField, js_get data idField)]"
  shows
    "(truthy (js_get data idField) \<longrightarrow>
        db_findOne env slug wh (store w) = (Inr existingEntry, s) \<longrightarrow> truthy existingEntry \<longrightarrow>
        template_error env (js_get existingEntry ''id'') = None \<longrightarrow>
          upsert_entry env slug data idField w =
            (fst (db_update env slug (js_get existingEntry ''id'') data1 s), data1,
             \<lparr>store = snd (db_update env slug (js_get existingEntry ''id'') data1 s),
              calls = calls w @ [FindOne slug wh, Update slug (js_get existingEntry ''id'') data1]\<rparr>))
     \<and> (truthy (js_get data idField) \<longrightarrow>
        db_findOne env slug wh (store w) = (Inr existingEntry, s) \<longrightarrow> \<not> truthy existingEntry \<longrightarrow>
          upsert_entry env slug data idField w =
            (fst (db_create env slug data1 s), data1,
             \<lparr>store = snd (db_create env slug data1 s),
              calls = calls w @ [FindOne slug wh, Create slug data1]\<rparr>))
     \<and> (\<not> truthy (js_get data idField) \<longrightarrow>
          upsert_entry env slug data idField w =
            (fst (db_create env slug data1 (store w)), data1,
             \<lparr>store = snd (db_create env slug data1 (store w)),
              calls = calls w @ [Create slug data1]\<rparr>))"
proof (cases "truthy (js_get data idField)")
  case True
  then have "where_log env [(idField, js_get data idField)] (js_get data idField) = None"
    using assms(5) by simp
  then show ?thesis
    using True assms(1,2,3,6,7)
    by (simp add: upsert_entry_def updateOrCreateCollectionType_def ObjectBuilder_extend_one
          query_create_def query_findOne_def query_update_def Let_def split: prod.splits)
next
  case False
  then have "where_log env [] (js_get data idField) = None"
    using assms(5) by simp
  then show ?thesis
    using False assms(1,2,3,4,6)
    by (simp add: upsert_entry_def updateOrCreateCollectionType_def
          query_create_def inherited_other Let_def split: prod.splits)
qed

lemmas upsert_defs =
  upsert_entry_def updateOrCreateCollectionType_def where_log_def ObjectBuilder_extend_def
  query_create_def query_findOne_def query_update_def Let_def

text \<open>
  Where the claim fails. A record that supplies the value \<open>0\<close> for the identifying field
  \<open>rank\<close> is created without a lookup, beside the entity that holds that value. For the
  identifying field \<open>toString\<close>, a record that supplies no value for it is looked up by
  the method it inherits, and written over the entity the store answers with. A record
  whose value for the identifying field cannot be written to the log fails before any
  call to the store.
\<close>

theorem upsert_by_identifying_field_counterexample:
  "db_findOne test_env ''author'' (JObj [(''rank'', JNum 0)]) (store w_rank)
     = (Inr (JObj [(''name'', JStr ''bob''), (''rank'', JNum 0), (''id'', JNum 1)]), store w_rank)
   \<and> upsert_entry test_env ''author'' (JObj [(''name'', JStr ''rob''), (''rank'', JNum 0)]) ''rank'' w_rank =
     (Inr (JObj [(''name'', JStr ''rob''), (''rank'', JNum 0), (''id'', JNum 2)]),
      JObj [(''name'', JStr ''rob''), (''rank'', JNum 0)],
      \<lparr>store = [(''author'', JObj [(''name'', JStr ''bob''), (''rank'', JNum 0), (''id'', JNum 1)]),
                (''author'', JObj [(''name'', JStr ''rob''), (''rank'', JNum 0), (''id'', JNum 2)])],
       calls = [Create ''author'' (JObj [(''name'', JStr ''rob''), (''rank'', JNum 0)])]\<rparr>)
   \<and> upsert_entry test_env ''author'' (JObj [(''name'', JStr ''eve'')]) ''toString'' w_bob =
     (Inr (JObj [(''name'', JStr ''eve''), (''id'', JNum 1)]),
      JObj [(''name'', JStr ''eve'')],
      \<lparr>store = [(''author'', JObj [(''name'', JStr ''eve''), (''id'', JNum 1)])],
       calls = [FindOne ''author'' (JObj [(''toString'', JBuiltin ''toString'')]),
                Update ''author'' (JNum 1) (JObj [(''name'', JStr ''eve'')])]\<rparr>)
   \<and> upsert_entry test_env ''author'' (JObj [(''name'', JObj [(''toString'', JNum 1)])]) ''name'' w_bob =
     (Inl (Error ''Cannot convert object to primitive value''),
      JObj [(''name'', JObj [(''toString'', JNum 1)])], w_bob)"
  by (simp add: upsert_defs test_defs)

theorem upsert_collection_by_identifying_field_witness:
  "upsert_entry test_env ''author''
     (JObj [(''id'', JNum 9), (''name'', JStr ''bob''), (''age'', JNum 40)]) ''name'' w_bob =
     (Inr (JObj [(''name'', JStr ''bob''), (''id'', JNum 1), (''age'', JNum 40)]),
      JObj [(''name'', JStr ''bob''), (''age'', JNum 40)],
      \<lparr>store = [(''author'', JObj [(''name'', JStr ''bob''), (''id'', JNum 1), (''age'', JNum 40)])],
       calls = [FindOne ''author'' (JObj [(''name'', JStr ''bob'')]),
                Update ''author'' (JNum 1) (JObj [(''name'', JStr ''bob''), (''age'', JNum 40)])]\<rparr>)
   \<and> upsert_entry test_env ''author'' (JObj [(''id'', JNum 9), (''name'', JStr ''eve'')]) ''name'' w_bob =
     (Inr (JObj [(''name'', JStr ''eve''), (''id'', JNum 2)]),
      JObj [(''name'', JStr ''eve'')],
      \<lparr>store = [(''author'', JObj [(''name'', JStr ''bob''), (''id'', JNum 1)]),
                (''author'', JObj [(''name'', JStr ''eve''), (''id'', JNum 2)])],
       calls = [FindOne ''author'' (JObj [(''name'', JStr ''eve'')]),
                Create ''author'' (JObj [(''name'', JStr ''eve'')])]\<rparr>)
   \<and> upsert_entry test_env ''author'' (JObj [(''name'', JStr ''eve''), (''rank'', JStr [])]) ''rank'' w_bob =
     (Inr (JObj [(''name'', JStr ''eve''), (''rank'', JStr []), (''id'', JNum 2)]),
      JObj [(''name'', JStr ''eve''), (''rank'', JStr [])],
      \<lparr>store = [(''author'', JObj [(''name'', JStr ''bob''), (''id'', JNum 1)]),
                (''author'', JObj [(''name'', JStr ''eve''), (''rank'', JStr []), (''id'', JNum 2)])],
       calls = [Create ''author'' (JObj [(''name'', JStr ''eve''), (''rank'', JStr [])])]\<rparr>)"
proof -
  have m: "getModel test_env ''author'' =
             Some \<lparr>kind = ''collectionType'', draftAndPublish = False,
                   attributes = [attr ''name'' ''string'' []]\<rparr>"
    by (simp add: test_env_def test_getModel_def)
  have k: "kind \<lparr>kind = ''collectionType'', draftAndPublish = False,
                 attributes = [attr ''name'' ''string'' []]\<rparr> \<noteq> ''singleType''"
    by simp
  have n: "''name'' \<notin> set Object_prototype_keys" "''rank'' \<notin> set Object_prototype_keys"
    by (simp_all add: Object_prototype_keys_def)
  have l: "where_log test_env (if truthy (js_get d f) then [(f, js_get d f)] else []) (js_get d f) = None"
    if "typeof (js_get d f) = ''string''" for d f
    using that by (cases "js_get d f") (simp_all add: where_log_def test_env_def split: if_splits)
  have found: "db_findOne test_env ''author'' (JObj [(''name'', JStr ''bob'')]) (store w_bob)
                 = (Inr (JObj [(''name'', JStr ''bob''), (''id'', JNum 1)]), store w_bob)"
    by (simp add: test_defs Let_def)
  have missing: "db_findOne test_env ''author'' (JObj [(''name'', JStr ''eve'')]) (store w_bob)
                 = (Inr JNull, store w_bob)"
    by (simp add: test_defs Let_def)
  have a: "upsert_entry test_env ''author''
     (JObj [(''id'', JNum 9), (''name'', JStr ''bob''), (''age'', JNum 40)]) ''name'' w_bob =
     (Inr (JObj [(''name'', JStr ''bob''), (''id'', JNum 1), (''age'', JNum 40)]),
      JObj [(''name'', JStr ''bob''), (''age'', JNum 40)],
      \<lparr>store = [(''author'', JObj [(''name'', JStr ''bob''), (''id'', JNum 1), (''age'', JNum 40)])],
       calls = [FindOne ''author'' (JObj [(''name'', JStr ''bob'')]),
                Update ''author'' (JNum 1) (JObj [(''name'', JStr ''bob''), (''age'', JNum 40)])]\<rparr>)"
    using upsert_collection_by_identifying_field
            [OF m k _ n(1) l refl refl, where w = w_bob
               and data = "JObj [(''id'', JNum 9), (''name'', JStr ''bob''), (''age'', JNum 40)]"
               and existingEntry = "JObj [(''name'', JStr ''bob''), (''id'', JNum 1)]"
               and s = "store w_bob"] found
    by (simp add: test_defs ObjectBuilder_extend_def Let_def)
  have b: "upsert_entry test_env ''author'' (JObj [(''id'', JNum 9), (''name'', JStr ''eve'')]) ''name'' w_bob =
     (Inr (JObj [(''name'', JStr ''eve''), (''id'', JNum 2)]),
      JObj [(''name'', JStr ''eve'')],
      \<lparr>store = [(''author'', JObj [(''name'', JStr ''bob''), (''id'', JNum 1)]),
                (''author'', JObj [(''name'', JStr ''eve''), (''id'', JNum 2)])],
       calls = [FindOne ''author'' (JObj [(''name'', JStr ''eve'')]),
                Create ''author'' (JObj [(''name'', JStr ''eve'')])]\<rparr>)"
    using upsert_collection_by_identifying_field
            [OF m k _ n(1) l refl refl, where w = w_bob
               and data = "JObj [(''id'', JNum 9), (''name'', JStr ''eve'')]"
               and existingEntry = JNull and s = "store w_bob"] missing
    by (simp add: test_defs Let_def)
  have c: "upsert_entry test_env ''author'' (JObj [(''name'', JStr ''eve''), (''rank'', JStr [])]) ''rank'' w_bob =
     (Inr (JObj [(''name'', JStr ''eve''), (''rank'', JStr []), (''id'', JNum 2)]),
      JObj [(''name'', JStr ''eve''), (''rank'', JStr [])],
      \<lparr>store = [(''author'', JObj [(''name'', JStr ''bob''), (''id'', JNum 1)]),
                (''author'', JObj [(''name'', JStr ''eve''), (''rank'', JStr []), (''id'', JNum 2)])],
       calls = [Create ''author'' (JObj [(''name'', JStr ''eve''), (''rank'', JStr [])])]\<rparr>)"
    using upsert_collection_by_identifying_field
            [OF m k _ n(2) l refl refl, where w = w_bob
               and data = "JObj [(''name'', JStr ''eve''), (''rank'', JStr [])]"]
    by (simp add: test_defs Let_def)
  from a b c show ?thesis by blast
qed


section \<open>The relation resolver\<close>

lemma with_head_proj:
  "map_option (\<lambda>(r, zs, w1). (r, w1)) (with_head d x) = map_option (\<lambda>(r, zs, w1). (r, w1)) x"
  by (simp add: with_head_def split: option.splits)

lemma entryIds_loop_skip:
  assumes "typeof x \<noteq> ''number''" "\<not> isObjectSafe x"
  shows "map_option (\<lambda>(r, zs, w1). (r, w1)) (entryIds_loop rec slug (xs @ x # ys) ids w)
       = map_option (\<lambda>(r, zs, w1). (r, w1)) (entryIds_loop rec slug (xs @ ys) ids w)"
proof (induction xs arbitrary: ids w)
  case Nil
  show ?case using assms by (simp add: with_head_proj)
next
  case (Cons a xs)
  show ?case
  proof (cases "typeof a = ''number''")
    case True
    then show ?thesis using Cons.IH by (simp add: with_head_proj)
  next
    case notnum: False
    show ?thesis
    proof (cases "isObjectSafe a")
      case False
      then show ?thesis using notnum Cons.IH by (simp add: with_head_proj)
    next
      case True
      show ?thesis
      proof (cases "rec slug a None w")
        case None
        then show ?thesis using notnum True by simp
      next
        case (Some p)
        obtain r d w1 where p: "p = (r, d, w1)" by (cases p)
        show ?thesis using notnum True Some p Cons.IH
          by (cases r) (simp_all add: with_head_proj)
      qed
    qed
  qed
qed

lemma entryIds_loop_numbers:
  "entryIds_loop rec slug (map JNum ns) ids w = Some (Inr (ids @ map JNum ns), map JNum ns, w)"
  by (induction ns arbitrary: ids) (simp_all add: with_head_def)

lemma with_head_Some:
  "with_head d x = Some (r, zs, w1) \<longleftrightarrow> (\<exists>zs'. x = Some (r, zs', w1) \<and> zs = d # zs')"
  by (auto simp: with_head_def split: option.splits)

lemma updateOrCreateRelation_relation:
  assumes "attr_type rel = ''relation''"
    and "attr_name rel \<notin> set [''createdBy'', ''updatedBy'']" and "\<not> nullish relData"
  shows "updateOrCreateRelation rec env user rel relData w =
     (case entryIds_loop rec (target rel) (toArray relData) [] w of
        None \<Rightarrow> None
      | Some (Inl e, ys, w1) \<Rightarrow> Some (Inl e, write_back relData ys, w1)
      | Some (Inr entryIds, ys, w1) \<Rightarrow>
          Some (Inr (if isArraySafe relData then JArr entryIds else first_or_null entryIds),
                write_back relData ys, w1))"
  using assms by (simp add: updateOrCreateRelation_def)

lemma updateOrCreateRelation_component:
  assumes "attr_type rel = ''component''"
    and "attr_name rel \<notin> set [''createdBy'', ''updatedBy'']" and "\<not> nullish relData"
  shows "updateOrCreateRelation rec env user rel relData w =
     (case entryIds_loop rec (component rel)
             (if repeatable rel then toArray relData else take 1 (toArray relData)) [] w of
        None \<Rightarrow> None
      | Some (Inl e, ys, w1) \<Rightarrow> Some (Inl e, write_back relData ys, w1)
      | Some (Inr entryIds, ys, w1) \<Rightarrow>
          Some (Inr (if repeatable rel then JArr entryIds else first_or_null entryIds),
                write_back relData ys, w1))"
  using assms by (simp add: updateOrCreateRelation_def)


lemma entryIds_loop_resolved:
  "map_option (\<lambda>(r, zs, w1). (r, w1)) (entryIds_loop rec slug xs acc w)
     = map_option (\<lambda>(r, w1). (map_sum id ((@) acc) r, w1)) (resolved_ids rec slug xs w)"
proof (induction xs arbitrary: acc w)
  case Nil
  show ?case by simp
next
  case (Cons a xs)
  show ?case
  proof (cases "typeof a = ''number''")
    case True
    then show ?thesis
      using Cons.IH [of "acc @ [a]" w]
      by (simp add: with_head_proj split: option.splits sum.splits)
  next
    case notnum: False
    show ?thesis
    proof (cases "isObjectSafe a")
      case False
      then show ?thesis using notnum Cons.IH [of acc w] by (simp add: with_head_proj)
    next
      case True
      show ?thesis
      proof (cases "rec slug a None w")
        case None
        then show ?thesis using notnum True by simp
      next
        case (Some p)
        obtain r d w1 where p: "p = (r, d, w1)" by (cases p)
        show ?thesis
        proof (cases r)
          case (Inl e)
          then show ?thesis using notnum True Some p by simp
        next
          case (Inr entry)
          then show ?thesis
            using notnum True Some p
              Cons.IH [of "if truthy (opt_id entry) then acc @ [opt_id entry] else acc" w1]
            by (simp add: with_head_proj split: option.splits sum.splits)
        qed
      qed
    qed
  qed
qed

lemma entryIds_loop_resolved_all:
  "map_option (\<lambda>(r, zs, w1). (r, w1)) (entryIds_loop rec slug xs [] w) = resolved_ids rec slug xs w"
proof -
  have "map_sum id ((@) []) r = r" for r :: "error + jsval list"
    by (cases r) simp_all
  then show ?thesis
    by (cases "resolved_ids rec slug xs w") (auto simp: entryIds_loop_resolved)
qed

lemma toArray_scalar: "\<not> isArraySafe x \<Longrightarrow> toArray x = [x]"
  by (cases x) simp_all

text \<open>
  C5, as the code has it. For an attribute of type \<open>relation\<close> other than the two audit
  fields, whatever cardinality the schema declares for it, the resolver's outcome (the
  value or the error, and the world) is given by the input alone. For an array it is the
  array of the identifiers its entries resolve to, in order: the numbers as they are, and
  for each object the \<open>id\<close> of the entity it was upserted to. For an input that is not an
  array (and not \<open>null\<close>) it is the first identifier that the input alone resolves to if
  that is truthy, and \<open>null\<close> otherwise. For \<open>null\<close> and \<open>undefined\<close> it is \<open>null\<close>.
\<close>

theorem relation_shape_follows_input:
  assumes "attr_type rel = ''relation''"
    and "attr_name rel \<notin> set [''createdBy'', ''updatedBy'']"
  shows
    "map_option (\<lambda>(r, d, w1). (r, w1)) (updateOrCreateRelation rec env user rel (JArr xs) w)
       = map_option (\<lambda>(r, w1). (map_sum id JArr r, w1)) (resolved_ids rec (target rel) xs w)
     \<and> (\<not> isArraySafe x \<longrightarrow> \<not> nullish x \<longrightarrow>
          map_option (\<lambda>(r, d, w1). (r, w1)) (updateOrCreateRelation rec env user rel x w)
            = map_option
                (\<lambda>(r, w1). (map_sum id (\<lambda>ids. case ids of [] \<Rightarrow> JNull
                                               | i # others \<Rightarrow> if truthy i then i else JNull) r, w1))
                (resolved_ids rec (target rel) [x] w))
     \<and> (nullish x \<longrightarrow> updateOrCreateRelation rec env user rel x w = Some (Inr JNull, x, w))"
proof (intro conjI impI)
  have l: "map_option (\<lambda>(r, zs, w1). (r, w1)) (entryIds_loop rec (target rel) ys [] w)
     = resolved_ids rec (target rel) ys w" for ys
    by (rule entryIds_loop_resolved_all)
  have n: "\<not> nullish (JArr xs)" by simp
  show "map_option (\<lambda>(r, d, w1). (r, w1)) (updateOrCreateRelation rec env user rel (JArr xs) w)
       = map_option (\<lambda>(r, w1). (map_sum id JArr r, w1)) (resolved_ids rec (target rel) xs w)"
    using l [of xs]
    by (simp only: updateOrCreateRelation_relation [OF assms n])
       (cases "entryIds_loop rec (target rel) xs [] w"; cases "resolved_ids rec (target rel) xs w";
        auto split: sum.splits)
next
  assume x: "\<not> isArraySafe x" "\<not> nullish x"
  have l: "map_option (\<lambda>(r, zs, w1). (r, w1)) (entryIds_loop rec (target rel) [x] [] w)
     = resolved_ids rec (target rel) [x] w"
    by (rule entryIds_loop_resolved_all)
  show "map_option (\<lambda>(r, d, w1). (r, w1)) (updateOrCreateRelation rec env user rel x w)
            = map_option
                (\<lambda>(r, w1). (map_sum id (\<lambda>ids. case ids of [] \<Rightarrow> JNull
                                               | i # others \<Rightarrow> if truthy i then i else JNull) r, w1))
                (resolved_ids rec (target rel) [x] w)"
    using l x(1)
    by (simp only: updateOrCreateRelation_relation [OF assms x(2)] toArray_scalar [OF x(1)])
       (cases "entryIds_loop rec (target rel) [x] [] w"; cases "resolved_ids rec (target rel) [x] w";
        auto simp: first_or_null_def split: sum.splits)
next
  assume "nullish x"
  then show "updateOrCreateRelation rec env user rel x w = Some (Inr JNull, x, w)"
    by (simp add: updateOrCreateRelation_def)
qed


text \<open>
  C10. The loop that the \<open>component\<close> and the \<open>relation\<close> branch run over their entries
  passes over an entry that is neither a number nor a plain object (a string, a boolean,
  \<open>null\<close>, a nested array): with the entry or without it, the loop ends in the same
  outcome (the same identifiers or the same error) and the same world. So does the
  resolver, for an array given to a \<open>relation\<close> attribute or to a repeatable
  \<open>component\<close> attribute. A \<open>component\<close> attribute that is not repeatable looks at the
  first entry only: when that entry is such a value, the resolver returns \<open>null\<close> and
  calls nothing.
\<close>

theorem unusable_entry_is_skipped:
  assumes "typeof x \<noteq> ''number''" and "\<not> isObjectSafe x"
  shows
    "map_option (\<lambda>(r, zs, w1). (r, w1)) (entryIds_loop rec slug (xs @ x # ys) ids w)
       = map_option (\<lambda>(r, zs, w1). (r, w1)) (entryIds_loop rec slug (xs @ ys) ids w)
     \<and> (attr_name rel \<notin> set [''createdBy'', ''updatedBy''] \<longrightarrow>
        attr_type rel = ''relation'' \<or> (attr_type rel = ''component'' \<and> repeatable rel) \<longrightarrow>
          map_option (\<lambda>(r, d, w1). (r, w1)) (updateOrCreateRelation rec env user rel (JArr (xs @ x # ys)) w)
            = map_option (\<lambda>(r, d, w1). (r, w1)) (updateOrCreateRelation rec env user rel (JArr (xs @ ys)) w))
     \<and> (attr_name rel \<notin> set [''createdBy'', ''updatedBy''] \<longrightarrow>
        attr_type rel = ''component'' \<and> \<not> repeatable rel \<longrightarrow>
          updateOrCreateRelation rec env user rel (JArr (x # ys)) w = Some (Inr JNull, JArr (x # ys), w))"
proof (intro conjI impI)
  assume "attr_name rel \<notin> set [''createdBy'', ''updatedBy'']"
    and "attr_type rel = ''component'' \<and> \<not> repeatable rel"
  then show "updateOrCreateRelation rec env user rel (JArr (x # ys)) w = Some (Inr JNull, JArr (x # ys), w)"
    using assms
    by (simp add: updateOrCreateRelation_component with_head_def write_back_def first_or_null_def)
next
  show "map_option (\<lambda>(r, zs, w1). (r, w1)) (entryIds_loop rec slug (xs @ x # ys) ids w)
       = map_option (\<lambda>(r, zs, w1). (r, w1)) (entryIds_loop rec slug (xs @ ys) ids w)"
    by (rule entryIds_loop_skip [OF assms])
next
  assume name: "attr_name rel \<notin> set [''createdBy'', ''updatedBy'']"
    and ty: "attr_type rel = ''relation'' \<or> (attr_type rel = ''component'' \<and> repeatable rel)"
  define sl where "sl = (if attr_type rel = ''component'' then component rel else target rel)"
  have eq: "map_option (\<lambda>(r, zs, w1). (r, w1)) (entryIds_loop rec sl (xs @ x # ys) [] w)
          = map_option (\<lambda>(r, zs, w1). (r, w1)) (entryIds_loop rec sl (xs @ ys) [] w)"
    by (rule entryIds_loop_skip [OF assms])
  have u: "map_option (\<lambda>(r, d, w1). (r, w1)) (updateOrCreateRelation rec env user rel (JArr zs) w)
         = map_option (\<lambda>(r, w1). (map_sum id JArr r, w1))
             (map_option (\<lambda>(r, zs, w1). (r, w1)) (entryIds_loop rec sl zs [] w))" for zs
  proof (cases "attr_type rel = ''component''")
    case True
    then have "repeatable rel" using ty by auto
    then show ?thesis
      using True name
      by (simp add: updateOrCreateRelation_component sl_def split: option.splits sum.splits)
  next
    case False
    then have "attr_type rel = ''relation''" using ty by auto
    then show ?thesis
      using False name
      by (simp add: updateOrCreateRelation_relation sl_def split: option.splits sum.splits)
  qed
  show "map_option (\<lambda>(r, d, w1). (r, w1)) (updateOrCreateRelation rec env user rel (JArr (xs @ x # ys)) w)
      = map_option (\<lambda>(r, d, w1). (r, w1)) (updateOrCreateRelation rec env user rel (JArr (xs @ ys)) w)"
    by (simp only: u eq)
qed


theorem unusable_entry_is_skipped_witness:
  "map_option (\<lambda>(r, zs, w1). (r, w1))
     (entryIds_loop (updateOrCreate (Suc 0) test_env admin) ''author''
        ([JNum 5] @ JStr ''none'' # [JNum 6]) [] w0) = Some (Inr [JNum 5, JNum 6], w0)
   \<and> map_option (\<lambda>(r, d, w1). (r, w1))
       (updateOrCreateRelation (updateOrCreate (Suc 0) test_env admin) test_env admin
          (attr ''author'' ''relation'' ''author'') (JArr ([JNum 5] @ JStr ''none'' # [JNum 6])) w0)
       = Some (Inr (JArr [JNum 5, JNum 6]), w0)
   \<and> updateOrCreateRelation (updateOrCreate (Suc 0) test_env admin) test_env admin
       (attr ''seo'' ''component'' ''seo'') (JArr [JBool True, JNum 6]) w0
       = Some (Inr JNull, JArr [JBool True, JNum 6], w0)"
proof -
  have a: "typeof (JStr ''none'') \<noteq> ''number''" "\<not> isObjectSafe (JStr ''none'')" by simp_all
  have b: "typeof (JBool True) \<noteq> ''number''" "\<not> isObjectSafe (JBool True)" by simp_all
  note A = unusable_entry_is_skipped [OF a, where rec = "updateOrCreate (Suc 0) test_env admin"
             and env = test_env and user = admin and xs = "[JNum 5]" and ys = "[JNum 6]"
             and w = w0 and rel = "attr ''author'' ''relation'' ''author''" and slug = "''author''"
             and ids = "[]"]
  note B = unusable_entry_is_skipped [OF b, where rec = "updateOrCreate (Suc 0) test_env admin"
             and env = test_env and user = admin and ys = "[JNum 6]"
             and w = w0 and rel = "attr ''seo'' ''component'' ''seo''"]
  have 1: "map_option (\<lambda>(r, zs, w1). (r, w1))
     (entryIds_loop (updateOrCreate (Suc 0) test_env admin) ''author''
        ([JNum 5] @ JStr ''none'' # [JNum 6]) [] w0) = Some (Inr [JNum 5, JNum 6], w0)"
    using A [THEN conjunct1] by (simp add: with_head_def)
  have 2: "map_option (\<lambda>(r, d, w1). (r, w1))
       (updateOrCreateRelation (updateOrCreate (Suc 0) test_env admin) test_env admin
          (attr ''author'' ''relation'' ''author'') (JArr ([JNum 5] @ JStr ''none'' # [JNum 6])) w0)
       = Some (Inr (JArr [JNum 5, JNum 6]), w0)"
    using A [THEN conjunct2, THEN conjunct1]
    by (simp add: attr_def updateOrCreateRelation_def with_head_def write_back_def)
  have 3: "updateOrCreateRelation (updateOrCreate (Suc 0) test_env admin) test_env admin
       (attr ''seo'' ''component'' ''seo'') (JArr [JBool True, JNum 6]) w0
       = Some (Inr JNull, JArr [JBool True, JNum 6], w0)"
    using B [THEN conjunct2, THEN conjunct2] by (simp add: attr_def)
  from 1 2 3 show ?thesis by blast
qed


lemmas run_defs =
  importData_def importData_records_def parseInputData_def inputFormatToParser_def
  parseJson_def parseCsv_def parseCsv_row_def handle_publishedAt_def numberTypes_def
  parseJso_def hasDraftAndPublish_def importOtherSlug_def process_datum_def item_label_def
  updateOrCreate_body_def getModelAttributes_def relationTypes_def updateOrCreateRelation_def
  upsert_entry_def updateOrCreateCollectionType_def where_log_def query_create_def
  query_findOne_def query_update_def with_head_def write_back_def first_or_null_def opt_id_def
  failures_of_def ObjectBuilder_extend_def has_own_def index_of_name_def digit_of_def
  List.map_filter_def Let_def

text \<open>
  Where the claim fails: an attribute of type \<open>relation\<close> named \<open>createdBy\<close> resolves an
  array to the acting user's \<open>id\<close>, which is no array (the test for the two audit fields
  comes before the branch on the type).
\<close>

theorem relation_shape_counterexample:
  "attr_type (attr ''createdBy'' ''relation'' ''user'') = ''relation''
   \<and> updateOrCreateRelation (updateOrCreate (Suc 0) test_env admin) test_env admin
       (attr ''createdBy'' ''relation'' ''user'') (JArr [JNum 3, JNum 4]) w0
       = Some (Inr (JNum 7), JArr [JNum 3, JNum 4], w0)"
  by (simp add: updateOrCreateRelation_def attr_def admin_def inherited_def)

theorem relation_shape_follows_input_witness:
  "map_option (\<lambda>(r, d, w1). (r, w1))
     (updateOrCreateRelation (updateOrCreate (Suc 0) test_env admin) test_env admin
        (attr ''author'' ''relation'' ''author'') (JArr [JNum 5, JObj [(''name'', JStr ''bob'')]]) w0)
     = Some (Inr (JArr [JNum 5, JNum 1]),
             \<lparr>store = [(''author'', JObj [(''name'', JStr ''bob''), (''id'', JNum 1)])],
              calls = [Create ''author'' (JObj [(''name'', JStr ''bob'')])]\<rparr>)
   \<and> map_option (\<lambda>(r, d, w1). (r, w1))
       (updateOrCreateRelation (updateOrCreate (Suc 0) test_env admin) test_env admin
          (attr ''author'' ''relation'' ''author'') (JObj [(''name'', JStr ''bob'')]) w0)
     = Some (Inr (JNum 1),
             \<lparr>store = [(''author'', JObj [(''name'', JStr ''bob''), (''id'', JNum 1)])],
              calls = [Create ''author'' (JObj [(''name'', JStr ''bob'')])]\<rparr>)
   \<and> map_option (\<lambda>(r, d, w1). (r, w1))
       (updateOrCreateRelation (updateOrCreate (Suc 0) test_env admin) test_env admin
          (attr ''author'' ''relation'' ''author'') (JNum 5) w0)
     = Some (Inr (JNum 5), w0)
   \<and> updateOrCreateRelation (updateOrCreate (Suc 0) test_env admin) test_env admin
       (attr ''author'' ''relation'' ''author'') JNull w0 = Some (Inr JNull, JNull, w0)"
proof -
  have t: "attr_type (attr ''author'' ''relation'' ''author'') = ''relation''"
    by (simp add: attr_def)
  have n: "attr_name (attr ''author'' ''relation'' ''author'') \<notin> set [''createdBy'', ''updatedBy'']"
    by (simp add: attr_def)
  note T = relation_shape_follows_input
             [OF t n, where rec = "updateOrCreate (Suc 0) test_env admin" and env = test_env
                and user = admin and w = w0]
  have tg: "target (attr ''author'' ''relation'' ''author'') = ''author''"
    by (simp add: attr_def)
  have bob: "updateOrCreate (Suc 0) test_env admin ''author'' (JObj [(''name'', JStr ''bob'')]) None w0
      = Some (Inr (JObj [(''name'', JStr ''bob''), (''id'', JNum 1)]), JObj [(''name'', JStr ''bob'')],
              \<lparr>store = [(''author'', JObj [(''name'', JStr ''bob''), (''id'', JNum 1)])],
               calls = [Create ''author'' (JObj [(''name'', JStr ''bob'')])]\<rparr>)"
    by (simp add: run_defs test_defs)
  have a: "map_option (\<lambda>(r, d, w1). (r, w1))
     (updateOrCreateRelation (updateOrCreate (Suc 0) test_env admin) test_env admin
        (attr ''author'' ''relation'' ''author'') (JArr [JNum 5, JObj [(''name'', JStr ''bob'')]]) w0)
     = Some (Inr (JArr [JNum 5, JNum 1]),
             \<lparr>store = [(''author'', JObj [(''name'', JStr ''bob''), (''id'', JNum 1)])],
              calls = [Create ''author'' (JObj [(''name'', JStr ''bob'')])]\<rparr>)"
    using T [THEN conjunct1, of "[JNum 5, JObj [(''name'', JStr ''bob'')]]"]
    by (simp add: tg bob opt_id_def inherited_def Object_prototype_keys_def del: updateOrCreate.simps)
  have b: "map_option (\<lambda>(r, d, w1). (r, w1))
       (updateOrCreateRelation (updateOrCreate (Suc 0) test_env admin) test_env admin
          (attr ''author'' ''relation'' ''author'') (JObj [(''name'', JStr ''bob'')]) w0)
     = Some (Inr (JNum 1),
             \<lparr>store = [(''author'', JObj [(''name'', JStr ''bob''), (''id'', JNum 1)])],
              calls = [Create ''author'' (JObj [(''name'', JStr ''bob'')])]\<rparr>)"
    using T [THEN conjunct2, THEN conjunct1, of "JObj [(''name'', JStr ''bob'')]"]
    by (simp add: tg bob opt_id_def inherited_def Object_prototype_keys_def del: updateOrCreate.simps)
  have c: "map_option (\<lambda>(r, d, w1). (r, w1))
       (updateOrCreateRelation (updateOrCreate (Suc 0) test_env admin) test_env admin
          (attr ''author'' ''relation'' ''author'') (JNum 5) w0)
     = Some (Inr (JNum 5), w0)"
    using T [THEN conjunct2, THEN conjunct1, of "JNum 5"]
    by (simp add: tg)
  have d: "updateOrCreateRelation (updateOrCreate (Suc 0) test_env admin) test_env admin
       (attr ''author'' ''relation'' ''author'') JNull w0 = Some (Inr JNull, JNull, w0)"
    using T [THEN conjunct2, THEN conjunct2, of JNull]
    by simp
  from a b c d show ?thesis by blast
qed


section \<open>The upsert returns\<close>

text \<open>
  A record is a finite tree and every nested call is made on a proper part of it, so a
  bound above the size of the record is never used up, for a schema whose attribute names
  are distinct within each model (they are the keys of the schema's attribute object)
  and whatever the store answers.
\<close>

lemma size_entry: "x \<in> set xs \<Longrightarrow> size x < size (JArr xs)"
  using size_list_estimation' [of x xs "size x" size] by simp

lemma size_field: "(k, v) \<in> set kvs \<Longrightarrow> size v < size (JObj kvs)"
  using size_list_estimation' [of "(k, v)" kvs "size v" "size_prod (\<lambda>x. 0) size"] by simp


lemma obj_get_cases: "obj_get kvs k = inherited k \<or> (k, obj_get kvs k) \<in> set kvs"
  by (induction kvs) auto

lemma inherited_not_object: "\<not> isObjectSafe (inherited k)"
  by (simp add: inherited_def)

lemma toArray_size: "x \<in> set (toArray v) \<Longrightarrow> size x \<le> size v"
  by (cases v) (auto dest: size_entry less_imp_le)

lemma toArray_inherited: "x \<in> set (toArray (inherited k)) \<Longrightarrow> \<not> isObjectSafe x"
  by (auto simp: inherited_def split: if_splits)

lemma js_get_object_size:
  assumes "x \<in> set (toArray (js_get data k))" and "isObjectSafe x"
  shows "size x < size data"
proof (cases data)
  case (JObj kvs)
  from obj_get_cases [of kvs k] show ?thesis
  proof
    assume "obj_get kvs k = inherited k"
    then show ?thesis using assms JObj toArray_inherited [of x k] by simp
  next
    assume "(k, obj_get kvs k) \<in> set kvs"
    from size_field [OF this] toArray_size [OF assms(1)] show ?thesis using JObj by simp
  qed
next
  case (JArr xs)
  show ?thesis
  proof (cases "k \<noteq> ''length'' \<and> (\<exists>i. index_of_name k = Some i \<and> i < length xs)")
    case True
    then obtain i where i: "index_of_name k = Some i" "i < length xs" "k \<noteq> ''length''" by blast
    then have "js_get data k = xs ! i" using JArr by simp
    moreover have "size (xs ! i) < size data"
      using size_entry [OF nth_mem [OF i(2)]] JArr by simp
    ultimately show ?thesis using toArray_size [OF assms(1)] by simp
  next
    case False
    then have "js_get data k = JNum (int (length xs)) \<or> js_get data k = inherited k"
      using JArr by (auto split: option.splits)
    then show ?thesis using assms toArray_inherited [of x k] by auto
  qed
next
  case (JStr s)
  have "js_get data k = JNum (int (length s)) \<or> js_get data k = inherited k
        \<or> (\<exists>c. js_get data k = JStr [c])"
    using JStr by (auto split: option.splits)
  then show ?thesis using assms toArray_inherited [of x k] by auto
next
  case (JBuiltin b)
  have "js_get data k = JNull \<or> js_get data k = inherited k" using JBuiltin by auto
  then show ?thesis using assms toArray_inherited [of x k] by auto
qed (use assms toArray_inherited [of x k] in auto)

lemma component_tag_object: "js_get a ''__component'' = JStr tag \<Longrightarrow> isObjectSafe a"
  by (cases a) (auto simp: inherited_def Object_prototype_keys_def index_of_name_def digit_of_def
                     split: if_splits)

lemma size_js_delete: "size (js_delete v k) \<le> size v"
proof (cases v)
  case (JObj kvs)
  have "size_list f (obj_delete kvs k) \<le> size_list f kvs" for f :: "string \<times> jsval \<Rightarrow> nat"
    by (induction kvs) auto
  then show ?thesis using JObj by simp
qed simp_all

lemma js_set_Inr_other:
  "js_set data k v = Inr data1 \<Longrightarrow> k' \<noteq> k \<Longrightarrow> js_get data1 k' = js_get data k'"
  by (cases data) (auto simp: obj_get_set)

lemma returns_Some: "returns (Some y)"
  by (simp add: returns_def)

lemma returnsE: "returns r \<Longrightarrow> (\<And>y. r = Some y \<Longrightarrow> thesis) \<Longrightarrow> thesis"
  by (cases r) (auto simp: returns_def)

lemma with_head_returns: "returns r \<Longrightarrow> returns (with_head d r)"
  by (cases r) (auto simp: with_head_def returns_def)

lemma entryIds_loop_returns:
  assumes "\<And>x w. x \<in> set xs \<Longrightarrow> isObjectSafe x \<Longrightarrow> returns (rec slug x None w)"
  shows "returns (entryIds_loop rec slug xs acc w)"
  using assms
proof (induction xs arbitrary: acc w)
  case Nil
  show ?case by (simp add: returns_Some)
next
  case (Cons a xs)
  have rest: "returns (with_head d (entryIds_loop rec slug xs acc' w'))" for d acc' w'
    by (rule with_head_returns, rule Cons.IH) (simp add: Cons.prems)
  show ?case
  proof (cases "typeof a = ''number''")
    case True
    then show ?thesis using rest [of a "acc @ [a]" w] by simp
  next
    case notnum: False
    show ?thesis
    proof (cases "isObjectSafe a")
      case False
      then show ?thesis using notnum rest [of a acc w] by simp
    next
      case True
      then have "returns (rec slug a None w)" by (simp add: Cons.prems)
      then obtain y where "rec slug a None w = Some y" by (rule returnsE)
      then obtain r d w1 where c: "rec slug a None w = Some (r, d, w1)" by (cases y) auto
      show ?thesis
      proof (cases r)
        case (Inl e)
        then show ?thesis using notnum True c by (simp add: returns_Some)
      next
        case (Inr entry)
        then show ?thesis
          using notnum True c
            rest [of d "if truthy (opt_id entry) then acc @ [opt_id entry] else acc" w1]
          by simp
      qed
    qed
  qed
qed

lemma dynamiczone_loop_returns:
  assumes "\<And>x sl w. x \<in> set xs \<Longrightarrow> isObjectSafe x \<Longrightarrow> returns (rec sl x None w)"
  shows "returns (dynamiczone_loop rec xs comps w)"
  using assms
proof (induction xs arbitrary: comps w)
  case Nil
  show ?case by (simp add: returns_Some)
next
  case (Cons a xs)
  have rest: "returns (with_head d (dynamiczone_loop rec xs comps' w'))" for d comps' w'
    by (rule with_head_returns, rule Cons.IH) (simp add: Cons.prems)
  show ?case
  proof (cases "nullish a")
    case True
    then show ?thesis by (simp add: returns_Some)
  next
    case False
    show ?thesis
    proof (cases "js_get a ''__component''")
      case (JStr tag)
      have "returns (rec tag a None w)" using component_tag_object [OF JStr] by (simp add: Cons.prems)
      then obtain y where "rec tag a None w = Some y" by (rule returnsE)
      then obtain r d w1 where c: "rec tag a None w = Some (r, d, w1)" by (cases y) auto
      show ?thesis
      proof (cases r)
        case (Inl e)
        then show ?thesis using False JStr c by (simp add: returns_Some)
      next
        case (Inr entry)
        then show ?thesis
          using False JStr c
            rest [of d "comps @ [JObj (obj_set (spread entry) ''__component'' (js_get d ''__component''))]" w1]
          by simp
      qed
    qed (use False in \<open>simp_all add: returns_Some\<close>)
  qed
qed

lemma entryIds_result_returns:
  assumes "returns l"
  shows "returns (case l of
                    None \<Rightarrow> None
                  | Some (Inl e, ys, w1) \<Rightarrow> Some (f e ys w1)
                  | Some (Inr entryIds, ys, w1) \<Rightarrow> Some (g entryIds ys w1))"
  using assms by (auto elim!: returnsE simp: returns_Some split: sum.splits)

lemma updateOrCreateRelation_returns:
  assumes "\<And>x sl w. x \<in> set (toArray relData) \<Longrightarrow> isObjectSafe x \<Longrightarrow> returns (rec sl x None w)"
  shows "returns (updateOrCreateRelation rec env user rel relData w)"
proof -
  have e: "returns (entryIds_loop rec sl (toArray relData) [] w)" for sl
    by (rule entryIds_loop_returns) (simp add: assms)
  have e1: "returns (entryIds_loop rec sl (take 1 (toArray relData)) [] w)" for sl
    by (rule entryIds_loop_returns) (auto dest: in_set_takeD simp: assms)
  have d: "returns (dynamiczone_loop rec xs [] w)" if "relData = JArr xs" for xs
    by (rule dynamiczone_loop_returns) (use that assms in simp)
  consider (null) "nullish relData"
    | (audit) "\<not> nullish relData" "attr_name rel \<in> set [''createdBy'', ''updatedBy'']"
    | (dz) "\<not> nullish relData" "attr_name rel \<notin> set [''createdBy'', ''updatedBy'']"
           "attr_type rel = ''dynamiczone''"
    | (comp) "\<not> nullish relData" "attr_name rel \<notin> set [''createdBy'', ''updatedBy'']"
           "attr_type rel = ''component''"
    | (media) "\<not> nullish relData" "attr_name rel \<notin> set [''createdBy'', ''updatedBy'']"
           "attr_type rel = ''media''"
    | (rel) "\<not> nullish relData" "attr_name rel \<notin> set [''createdBy'', ''updatedBy'']"
           "attr_type rel = ''relation''"
    | (other) "\<not> nullish relData" "attr_name rel \<notin> set [''createdBy'', ''updatedBy'']"
           "attr_type rel \<noteq> ''dynamiczone''" "attr_type rel \<noteq> ''component''"
           "attr_type rel \<noteq> ''media''" "attr_type rel \<noteq> ''relation''"
    by blast
  then show ?thesis
  proof cases
    case null
    then show ?thesis by (simp add: updateOrCreateRelation_def returns_Some)
  next
    case audit
    then show ?thesis by (simp add: updateOrCreateRelation_def returns_Some)
  next
    case dz
    show ?thesis
    proof (cases relData)
      case (JArr xs)
      from d [OF this] obtain y where "dynamiczone_loop rec xs [] w = Some y" by (rule returnsE)
      then show ?thesis using dz JArr
        by (cases y) (auto simp: updateOrCreateRelation_def returns_Some split: sum.splits)
    qed (use dz in \<open>simp_all add: updateOrCreateRelation_def returns_Some\<close>)
  next
    case comp
    show ?thesis
      unfolding updateOrCreateRelation_component [OF comp(3,2,1)]
      using e [of "component rel"] e1 [of "component rel"]
      by (auto intro: entryIds_result_returns)
  next
    case media
    then show ?thesis
      by (simp add: updateOrCreateRelation_def returns_Some split: prod.splits sum.splits)
  next
    case rel
    show ?thesis
      unfolding updateOrCreateRelation_relation [OF rel(3,2,1)]
      by (rule entryIds_result_returns [OF e])
  next
    case other
    then show ?thesis by (simp add: updateOrCreateRelation_def returns_Some)
  qed
qed

lemma resolve_attributes_returns:
  assumes "distinct (map attr_name attrs)"
    and "\<And>a x sl w. a \<in> set attrs \<Longrightarrow> x \<in> set (toArray (js_get data (attr_name a))) \<Longrightarrow>
            isObjectSafe x \<Longrightarrow> returns (rec sl x None w)"
  shows "returns (resolve_attributes rec env user attrs data w)"
  using assms
proof (induction attrs arbitrary: data w)
  case Nil
  show ?case by (simp add: returns_Some)
next
  case (Cons a attrs)
  have "returns (updateOrCreateRelation rec env user a (js_get data (attr_name a)) w)"
    by (rule updateOrCreateRelation_returns) (rule Cons.prems(2) [of a], simp_all)
  then obtain y where "updateOrCreateRelation rec env user a (js_get data (attr_name a)) w = Some y"
    by (rule returnsE)
  then obtain r relData w1 where
    u: "updateOrCreateRelation rec env user a (js_get data (attr_name a)) w = Some (r, relData, w1)"
    by (cases y) auto
  show ?case
  proof (cases r)
    case (Inl e)
    then show ?thesis using u by (simp add: returns_Some)
  next
    case (Inr v)
    show ?thesis
    proof (cases "js_set data (attr_name a) v")
      case (Inl e)
      then show ?thesis using u Inr by (simp add: returns_Some)
    next
      case s: (Inr data1)
      have "returns (resolve_attributes rec env user attrs data1 w1)"
      proof (rule Cons.IH)
        show "distinct (map attr_name attrs)" using Cons.prems(1) by simp
      next
        fix b x sl w'
        assume b: "b \<in> set attrs" and x: "x \<in> set (toArray (js_get data1 (attr_name b)))"
          and n: "isObjectSafe x"
        have "attr_name b \<in> attr_name ` set attrs" using b by (rule imageI)
        moreover have "attr_name a \<notin> attr_name ` set attrs" using Cons.prems(1) by simp
        ultimately have "attr_name b \<noteq> attr_name a" by metis
        then have "js_get data1 (attr_name b) = js_get data (attr_name b)"
          by (rule js_set_Inr_other [OF s])
        then show "returns (rec sl x None w')"
          using Cons.prems(2) [of b x sl w'] b x n by simp
      qed
      then show ?thesis using u Inr s by simp
    qed
  qed
qed

lemma getModelAttributes_distinct:
  assumes "\<And>slug m. getModel env slug = Some m \<Longrightarrow> distinct (map attr_name (attributes m))"
  shows "distinct (map attr_name (getModelAttributes env slug types))"
  using assms [of slug]
  by (auto simp: getModelAttributes_def distinct_map_filter split: option.splits)

lemma updateOrCreate_returns:
  assumes wf: "\<And>slug m. getModel env slug = Some m \<Longrightarrow> distinct (map attr_name (attributes m))"
  shows "size data < n \<Longrightarrow> returns (updateOrCreate n env user slug data idField w)"
proof (induction n arbitrary: data slug idField w)
  case 0
  then show ?case by simp
next
  case (Suc n)
  have "returns (resolve_attributes (updateOrCreate n env user) env user
          (getModelAttributes env slug relationTypes) data w)"
  proof (rule resolve_attributes_returns)
    show "distinct (map attr_name (getModelAttributes env slug relationTypes))"
      by (rule getModelAttributes_distinct [OF wf])
  next
    fix a :: attribute and x sl w'
    assume x: "x \<in> set (toArray (js_get data (attr_name a)))" and n: "isObjectSafe x"
    have "size x < size data" by (rule js_get_object_size [OF x n])
    then have "size x < n" using Suc.prems by simp
    then show "returns (updateOrCreate n env user sl x None w')" by (rule Suc.IH)
  qed
  then obtain y where
    "resolve_attributes (updateOrCreate n env user) env user
       (getModelAttributes env slug relationTypes) data w = Some y" by (rule returnsE)
  then show ?case
    by (cases y) (auto simp: updateOrCreate_body_def returns_Some split: sum.splits)
qed

lemma process_datum_returns:
  assumes wf: "\<And>slug m. getModel env slug = Some m \<Longrightarrow> distinct (map attr_name (attributes m))"
    and "size datum < n"
  shows "returns (process_datum n env user slug idField hasDP datum w)"
proof -
  have "size (if \<not> hasDP \<and> js_get datum ''publishedAt'' \<noteq> JUndefined
              then js_delete datum ''publishedAt'' else datum) < n"
    using assms(2) size_js_delete [of datum "''publishedAt''"] by auto
  from updateOrCreate_returns [OF wf this]
  have "returns (updateOrCreate n env user slug
                  (if \<not> hasDP \<and> js_get datum ''publishedAt'' \<noteq> JUndefined
                   then js_delete datum ''publishedAt'' else datum) idField w)" .
  then obtain y where
    "updateOrCreate n env user slug
       (if \<not> hasDP \<and> js_get datum ''publishedAt'' \<noteq> JUndefined
        then js_delete datum ''publishedAt'' else datum) idField w = Some y" by (rule returnsE)
  then obtain r d w1 where
    u: "updateOrCreate n env user slug
       (if \<not> hasDP \<and> js_get datum ''publishedAt'' \<noteq> JUndefined
        then js_delete datum ''publishedAt'' else datum) idField w = Some (r, d, w1)"
    by (cases y) auto
  show ?thesis
  proof (cases "nullish datum")
    case True
    then show ?thesis by (simp add: process_datum_def returns_Some)
  next
    case False
    show ?thesis
    proof (cases "template_error env (item_label datum idField)")
      case (Some e)
      then show ?thesis using False by (simp add: process_datum_def returns_Some)
    next
      case None
      show ?thesis
        unfolding process_datum_def
        using False None u by (cases r) (simp_all add: returns_Some)
    qed
  qed
qed

lemma importOtherSlug_loop_returns:
  assumes wf: "\<And>slug m. getModel env slug = Some m \<Longrightarrow> distinct (map attr_name (attributes m))"
    and "\<And>d. d \<in> set data \<Longrightarrow> size d < n"
  shows "returns (importOtherSlug_loop n env user slug idField hasDP data ps w)"
  using assms(2)
proof (induction data arbitrary: ps w)
  case Nil
  show ?case by (simp add: returns_Some)
next
  case (Cons datum rest)
  have "returns (process_datum n env user slug idField hasDP datum w)"
    by (rule process_datum_returns [OF wf]) (simp_all add: Cons.prems)
  then obtain y where "process_datum n env user slug idField hasDP datum w = Some y"
    by (rule returnsE)
  then obtain res w1 where "process_datum n env user slug idField hasDP datum w = Some (res, w1)"
    by (cases y) auto
  then show ?case using Cons.IH [of "ps @ [res]" w1] Cons.prems by simp
qed

lemma importOtherSlug_returns:
  assumes wf: "\<And>slug m. getModel env slug = Some m \<Longrightarrow> distinct (map attr_name (attributes m))"
    and "\<And>d. d \<in> set data \<Longrightarrow> size d < n"
  shows "returns (importOtherSlug n env data slug user idField hasDP importAsDrafts w)"
proof -
  from importOtherSlug_loop_returns
         [OF assms, where user = user and slug = slug and idField = idField and hasDP = hasDP
            and ps = "[]" and w = w]
  obtain y where "importOtherSlug_loop n env user slug idField hasDP data [] w = Some y"
    by (rule returnsE)
  then show ?thesis by (cases y) (simp add: importOtherSlug_def returns_Some)
qed


section \<open>The import loop\<close>

lemma importOtherSlug_loop_acc:
  "importOtherSlug_loop n env user slug idField hasDP data ps w =
     (case importOtherSlug_loop n env user slug idField hasDP data [] w of
        None \<Rightarrow> None
      | Some (qs, w1) \<Rightarrow> Some (ps @ qs, w1))"
proof (induction data arbitrary: ps w)
  case Nil
  show ?case by simp
next
  case (Cons datum rest)
  show ?case
  proof (cases "process_datum n env user slug idField hasDP datum w")
    case None
    then show ?thesis by simp
  next
    case (Some p)
    obtain res w1 where p: "p = (res, w1)" by (cases p)
    show ?thesis
      using Some p Cons.IH [of "ps @ [res]" w1] Cons.IH [of "[res]" w1]
      by (simp split: option.splits)
  qed
qed

lemma failures_of_Cons:
  "failures_of (p # ps) =
     (case p of Failed e d \<Rightarrow> [\<lparr>f_error = e, f_data = d\<rparr>] | Succeeded \<Rightarrow> []) @ failures_of ps"
  by (cases p) (simp_all add: failures_of_def)

lemma importOtherSlug_Cons:
  "importOtherSlug n env (datum # rest) slug user idField hasDP importAsDrafts w =
     (case process_datum n env user slug idField hasDP datum w of
        None \<Rightarrow> None
      | Some (res, w1) \<Rightarrow>
          (case importOtherSlug n env rest slug user idField hasDP importAsDrafts w1 of
             None \<Rightarrow> None
           | Some (fs, w2) \<Rightarrow>
               Some ((case res of Failed e d \<Rightarrow> [\<lparr>f_error = e, f_data = d\<rparr>] | Succeeded \<Rightarrow> []) @ fs, w2)))"
proof (cases "process_datum n env user slug idField hasDP datum w")
  case None
  then show ?thesis by (simp add: importOtherSlug_def)
next
  case (Some p)
  obtain res w1 where p: "p = (res, w1)" by (cases p)
  show ?thesis
    using Some p importOtherSlug_loop_acc [of n env user slug idField hasDP rest "[res]" w1]
    by (simp add: importOtherSlug_def failures_of_Cons split: option.splits)
qed


subsection \<open>What a failed call leaves of the record\<close>

lemma js_get_js_delete_other: "k' \<noteq> k \<Longrightarrow> js_get (js_delete v k) k' = js_get v k'"
  by (cases v) (simp_all add: obj_get_delete)

lemma has_own_obj_set: "has_own (JObj (obj_set kvs k v)) k' \<longleftrightarrow> k' = k \<or> has_own (JObj kvs) k'"
  unfolding has_own_def spread.simps keys_obj_set by simp

lemma has_own_obj_delete: "has_own (JObj (obj_delete kvs k)) k' \<longleftrightarrow> has_own (JObj kvs) k' \<and> k' \<noteq> k"
  unfolding has_own_def spread.simps keys_obj_delete by simp

lemma has_own_js_delete_other: "k' \<noteq> k \<Longrightarrow> has_own (js_delete v k) k' = has_own v k'"
  by (cases v) (simp_all add: has_own_obj_delete)

lemma js_set_Inr_has_own:
  "js_set data k v = Inr data1 \<Longrightarrow> k' \<noteq> k \<Longrightarrow> has_own data1 k' = has_own data k'"
  by (cases data) (auto simp: has_own_obj_set)

lemma left_in_field_other:
  "k' \<noteq> k \<Longrightarrow> js_get (left_in_field data k v) k' = js_get data k'
                \<and> has_own (left_in_field data k v) k' = has_own data k'"
  by (cases data) (simp_all add: left_in_field_def obj_get_set has_own_obj_set)

lemma resolve_attributes_other:
  "resolve_attributes rec env user attrs data w = Some (r, d, w') \<Longrightarrow> k \<notin> set (map attr_name attrs) \<Longrightarrow>
     js_get d k = js_get data k \<and> has_own d k = has_own data k"
proof (induction attrs arbitrary: data w)
  case Nil
  then show ?case by simp
next
  case (Cons a attrs)
  have k: "k \<noteq> attr_name a" "k \<notin> set (map attr_name attrs)" using Cons.prems(2) by auto
  from Cons.prems(1) obtain ra relData wa where
    u: "updateOrCreateRelation rec env user a (js_get data (attr_name a)) w = Some (ra, relData, wa)"
    by (auto split: option.splits)
  show ?case
  proof (cases ra)
    case (Inl e)
    then have "d = left_in_field data (attr_name a) relData" using Cons.prems(1) u by simp
    then show ?thesis using left_in_field_other [OF k(1)] by simp
  next
    case (Inr v)
    show ?thesis
    proof (cases "js_set data (attr_name a) v")
      case (Inl e)
      then have "d = data" using Cons.prems(1) u Inr by simp
      then show ?thesis by simp
    next
      case s: (Inr data1)
      then have "resolve_attributes rec env user attrs data1 wa = Some (r, d, w')"
        using Cons.prems(1) u Inr by simp
      from Cons.IH [OF this k(2)] show ?thesis
        using js_set_Inr_other [OF s k(1)] js_set_Inr_has_own [OF s k(1)] by simp
    qed
  qed
qed

lemma updateOrCreateCollectionType_data:
  "fst (snd (updateOrCreateCollectionType env slug data idField w)) = data
   \<or> fst (snd (updateOrCreateCollectionType env slug data idField w)) = js_delete data ''id''"
proof (cases "nullish data")
  case True
  then show ?thesis by (simp add: updateOrCreateCollectionType_def)
next
  case False
  show ?thesis
  proof (cases "where_log env (if truthy (js_get data idField)
                    then ObjectBuilder_extend [] [(idField, js_get data idField)] else []) (js_get data idField)")
    case (Some e)
    then show ?thesis using False by (simp add: updateOrCreateCollectionType_def Let_def)
  next
    case None
    have "fst (snd (updateOrCreateCollectionType env slug data idField w))
            = (if idField \<noteq> ''id'' then js_delete data ''id'' else data)"
      unfolding updateOrCreateCollectionType_def Let_def None option.case if_not_P [OF False]
      by (simp split: prod.split sum.split option.split)
    then show ?thesis by auto
  qed
qed

lemma updateOrCreateSingleType_data:
  "fst (snd (updateOrCreateSingleType env slug data idField w)) = data
   \<or> fst (snd (updateOrCreateSingleType env slug data idField w)) = js_delete data ''id''"
  by (simp add: updateOrCreateSingleType_def Let_def split: prod.split sum.split list.split)

lemma upsert_entry_data:
  "fst (snd (upsert_entry env slug data idField w)) = data
   \<or> fst (snd (upsert_entry env slug data idField w)) = js_delete data ''id''"
  using updateOrCreateCollectionType_data [of env slug data idField w]
    updateOrCreateSingleType_data [of env slug data idField w]
  by (auto simp: upsert_entry_def split: option.splits)

lemma updateOrCreate_other:
  assumes "updateOrCreate n env user slug data idField w = Some (r, d, w')"
    and "k \<noteq> ''id''" and "k \<notin> set (map attr_name (getModelAttributes env slug relationTypes))"
  shows "js_get d k = js_get data k \<and> has_own d k = has_own data k"
proof (cases n)
  case 0
  then show ?thesis using assms(1) by simp
next
  case (Suc n')
  show ?thesis
  proof (cases "nullish data")
    case True
    then show ?thesis using assms(1) Suc by (simp add: updateOrCreate_body_def)
  next
    case False
    from assms(1) obtain ra da wa where
      res: "resolve_attributes (updateOrCreate n' env user) env user
              (getModelAttributes env slug relationTypes) data w = Some (ra, da, wa)"
      using Suc False by (auto simp: updateOrCreate_body_def split: option.splits)
    note o = resolve_attributes_other [OF res assms(3)]
    show ?thesis
    proof (cases ra)
      case (Inl e)
      then have "d = da" using assms(1) Suc False res by (simp add: updateOrCreate_body_def)
      then show ?thesis using o by simp
    next
      case (Inr u)
      then have "d = fst (snd (upsert_entry env slug da (case idField of None \<Rightarrow> ''id'' | Some f \<Rightarrow> f) wa))"
        using assms(1) Suc False res by (auto simp: updateOrCreate_body_def)
      then have "d = da \<or> d = js_delete da ''id''"
        using upsert_entry_data [of env slug da "case idField of None \<Rightarrow> ''id'' | Some f \<Rightarrow> f" wa] by simp
      then show ?thesis
        using o js_get_js_delete_other [OF assms(2), of da] has_own_js_delete_other [OF assms(2), of da]
        by auto
    qed
  qed
qed

text \<open>
  C2, as the code has it. The import loop attempts every record, whatever became of the
  ones before it. The empty sequence yields no failure. For a first record and the records
  after it: when the attempt on the first raises an error \<open>e\<close> (a record that is \<open>null\<close>
  or whose label cannot be written to the log fails before any call to the store; any
  other fails in its upsert), the result is one entry \<open>{error: message e, data: d}\<close>
  followed by the result of the loop on the remaining records, run from the world the
  failed attempt left; when the upsert succeeds, the result is that of the loop on the
  remaining records and holds nothing for the first. The entry's \<open>d\<close> is the record as
  the failed attempt left it: whatever the upsert returns, every property of \<open>d\<close> other
  than \<open>id\<close>, \<open>publishedAt\<close> and the model's relational attributes is the record's,
  owned by \<open>d\<close> just when the record owns it. And the loop returns: for a schema whose
  attribute names are distinct within each model, a bound \<open>n\<close> of nested calls above the
  size of every record is never used up.
\<close>

theorem importOtherSlug_attempts_every_record:
  "importOtherSlug n env [] slug user idField hasDP importAsDrafts w = Some ([], w)
   \<and> importOtherSlug n env (datum # rest) slug user idField hasDP importAsDrafts w =
       (if nullish datum then
          (case importOtherSlug n env rest slug user idField hasDP importAsDrafts w of
             None \<Rightarrow> None
           | Some (fs, w2) \<Rightarrow> Some (\<lparr>f_error = message env TypeError, f_data = datum\<rparr> # fs, w2))
        else case template_error env (item_label datum idField) of
          Some e \<Rightarrow>
            (case importOtherSlug n env rest slug user idField hasDP importAsDrafts w of
               None \<Rightarrow> None
             | Some (fs, w2) \<Rightarrow> Some (\<lparr>f_error = message env e, f_data = datum\<rparr> # fs, w2))
        | None \<Rightarrow>
          (case updateOrCreate n env user slug
                  (if \<not> hasDP \<and> js_get datum ''publishedAt'' \<noteq> JUndefined
                   then js_delete datum ''publishedAt'' else datum) idField w of
             None \<Rightarrow> None
           | Some (Inl e, d, w1) \<Rightarrow>
               (case importOtherSlug n env rest slug user idField hasDP importAsDrafts w1 of
                  None \<Rightarrow> None
                | Some (fs, w2) \<Rightarrow> Some (\<lparr>f_error = message env e, f_data = d\<rparr> # fs, w2))
           | Some (Inr entry, d, w1) \<Rightarrow>
               importOtherSlug n env rest slug user idField hasDP importAsDrafts w1))
   \<and> (updateOrCreate n env user slug
         (if \<not> hasDP \<and> js_get datum ''publishedAt'' \<noteq> JUndefined
          then js_delete datum ''publishedAt'' else datum) idField w = Some (r, d, wr) \<longrightarrow>
        k \<notin> set ([''id'', ''publishedAt''] @ map attr_name (getModelAttributes env slug relationTypes)) \<longrightarrow>
          js_get d k = js_get datum k \<and> has_own d k = has_own datum k)
   \<and> ((\<forall>sl m. getModel env sl = Some m \<longrightarrow> distinct (map attr_name (attributes m))) \<longrightarrow>
        (\<forall>x \<in> set data. size x < n) \<longrightarrow>
        returns (importOtherSlug n env data slug user idField hasDP importAsDrafts w))"
proof (intro conjI impI)
  assume "\<forall>sl m. getModel env sl = Some m \<longrightarrow> distinct (map attr_name (attributes m))"
    and "\<forall>x \<in> set data. size x < n"
  then show "returns (importOtherSlug n env data slug user idField hasDP importAsDrafts w)"
    by (intro importOtherSlug_returns) auto
next
  show "importOtherSlug n env [] slug user idField hasDP importAsDrafts w = Some ([], w)"
    by (simp add: importOtherSlug_def failures_of_def)
next
  assume u: "updateOrCreate n env user slug
         (if \<not> hasDP \<and> js_get datum ''publishedAt'' \<noteq> JUndefined
          then js_delete datum ''publishedAt'' else datum) idField w = Some (r, d, wr)"
    and k: "k \<notin> set ([''id'', ''publishedAt''] @ map attr_name (getModelAttributes env slug relationTypes))"
  have k1: "k \<noteq> ''id''" and k2: "k \<noteq> ''publishedAt''"
    and k3: "k \<notin> set (map attr_name (getModelAttributes env slug relationTypes))"
    using k by auto
  note o = updateOrCreate_other [OF u k1 k3]
  show "js_get d k = js_get datum k" "has_own d k = has_own datum k"
    using o js_get_js_delete_other [OF k2, of datum] has_own_js_delete_other [OF k2, of datum]
    by (auto split: if_splits)
next
  show "importOtherSlug n env (datum # rest) slug user idField hasDP importAsDrafts w =
       (if nullish datum then
          (case importOtherSlug n env rest slug user idField hasDP importAsDrafts w of
             None \<Rightarrow> None
           | Some (fs, w2) \<Rightarrow> Some (\<lparr>f_error = message env TypeError, f_data = datum\<rparr> # fs, w2))
        else case template_error env (item_label datum idField) of
          Some e \<Rightarrow>
            (case importOtherSlug n env rest slug user idField hasDP importAsDrafts w of
               None \<Rightarrow> None
             | Some (fs, w2) \<Rightarrow> Some (\<lparr>f_error = message env e, f_data = datum\<rparr> # fs, w2))
        | None \<Rightarrow>
          (case updateOrCreate n env user slug
                  (if \<not> hasDP \<and> js_get datum ''publishedAt'' \<noteq> JUndefined
                   then js_delete datum ''publishedAt'' else datum) idField w of
             None \<Rightarrow> None
           | Some (Inl e, d, w1) \<Rightarrow>
               (case importOtherSlug n env rest slug user idField hasDP importAsDrafts w1 of
                  None \<Rightarrow> None
                | Some (fs, w2) \<Rightarrow> Some (\<lparr>f_error = message env e, f_data = d\<rparr> # fs, w2))
           | Some (Inr entry, d, w1) \<Rightarrow>
               importOtherSlug n env rest slug user idField hasDP importAsDrafts w1))"
  proof (cases "nullish datum")
    case True
    then show ?thesis
      by (simp add: importOtherSlug_Cons process_datum_def split: option.splits)
  next
    case False
    show ?thesis
    proof (cases "template_error env (item_label datum idField)")
      case (Some e)
      then show ?thesis using False
        by (simp add: importOtherSlug_Cons process_datum_def split: option.splits)
    next
      case noerr: None
      show ?thesis
      proof (cases "updateOrCreate n env user slug
                    (if \<not> hasDP \<and> js_get datum ''publishedAt'' \<noteq> JUndefined
                     then js_delete datum ''publishedAt'' else datum) idField w")
        case None
        then show ?thesis using False noerr
          by (simp add: importOtherSlug_Cons process_datum_def split: option.splits)
      next
        case (Some p)
        obtain r d w1 where p: "p = (r, d, w1)" by (cases p)
        show ?thesis
        proof (cases r)
          case (Inl e)
          then show ?thesis using False noerr Some p
            by (simp add: importOtherSlug_Cons process_datum_def split: option.splits)
        next
          case (Inr entry)
          then show ?thesis using False noerr Some p
            by (simp add: importOtherSlug_Cons process_datum_def split: option.splits)
        qed
      qed
    qed
  qed
qed


text \<open>
  Where the claim fails: the entry of a failed record does not hold the record as it was
  supplied. For a model without draft and publish the loop deletes \<open>publishedAt\<close> from
  the record before the upsert, and the entry holds the record without it.
\<close>

theorem failure_data_counterexample:
  "importOtherSlug (Suc 0) test_env
     [JObj [(''name'', JStr ''a'')], JObj [(''name'', JStr ''a''), (''publishedAt'', JStr ''2020'')]]
     ''author'' admin None False True w0
   = Some ([\<lparr>f_error = ''This attribute must be unique'', f_data = JObj [(''name'', JStr ''a'')]\<rparr>],
           \<lparr>store = [(''author'', JObj [(''name'', JStr ''a''), (''id'', JNum 1)])],
            calls = [Create ''author'' (JObj [(''name'', JStr ''a'')]),
                     Create ''author'' (JObj [(''name'', JStr ''a'')])]\<rparr>)
   \<and> JObj [(''name'', JStr ''a'')] \<noteq> JObj [(''name'', JStr ''a''), (''publishedAt'', JStr ''2020'')]"
  by (simp add: run_defs test_defs)


theorem importOtherSlug_attempts_every_record_witness:
  "importOtherSlug (Suc 0) test_env
     [JObj [(''name'', JObj [(''toString'', JNum 1)])], JObj [(''name'', JStr ''b'')]]
     ''author'' admin None False True w0
   = Some ([\<lparr>f_error = ''Cannot convert object to primitive value'',
             f_data = JObj [(''name'', JObj [(''toString'', JNum 1)])]\<rparr>],
           \<lparr>store = [(''author'', JObj [(''name'', JStr ''b''), (''id'', JNum 1)])],
            calls = [Create ''author'' (JObj [(''name'', JStr ''b'')])]\<rparr>)
   \<and> importOtherSlug (Suc 0) test_env
       [JObj [(''name'', JStr ''a'')],
        JObj [(''name'', JStr ''a''), (''publishedAt'', JStr ''2020''), (''age'', JNum 3)],
        JObj [(''name'', JStr ''b'')]]
       ''author'' admin None False True w0
     = Some ([\<lparr>f_error = ''This attribute must be unique'',
               f_data = JObj [(''name'', JStr ''a''), (''age'', JNum 3)]\<rparr>],
             \<lparr>store = [(''author'', JObj [(''name'', JStr ''a''), (''id'', JNum 1)]),
                       (''author'', JObj [(''name'', JStr ''b''), (''id'', JNum 2)])],
              calls = [Create ''author'' (JObj [(''name'', JStr ''a'')]),
                       Create ''author'' (JObj [(''name'', JStr ''a''), (''age'', JNum 3)]),
                       Create ''author'' (JObj [(''name'', JStr ''b'')])]\<rparr>)
   \<and> js_get (JObj [(''name'', JStr ''a''), (''age'', JNum 3)]) ''age''
       = js_get (JObj [(''name'', JStr ''a''), (''publishedAt'', JStr ''2020''), (''age'', JNum 3)]) ''age''
   \<and> has_own (JObj [(''name'', JStr ''a''), (''age'', JNum 3)]) ''age''
       = has_own (JObj [(''name'', JStr ''a''), (''publishedAt'', JStr ''2020''), (''age'', JNum 3)]) ''age''
   \<and> returns (importOtherSlug 10 test_env
        [JObj [(''name'', JStr ''a'')],
         JObj [(''name'', JStr ''a''), (''publishedAt'', JStr ''2020''), (''age'', JNum 3)],
         JObj [(''name'', JStr ''b'')]]
        ''author'' admin None False True w0)"
proof -
  have wf: "\<forall>sl m. getModel test_env sl = Some m \<longrightarrow> distinct (map attr_name (attributes m))"
    by (auto simp: test_env_def test_getModel_def attr_def split: if_splits)
  have sz: "\<forall>x \<in> set [JObj [(''name'', JStr ''a'')],
                        JObj [(''name'', JStr ''a''), (''publishedAt'', JStr ''2020''), (''age'', JNum 3)],
                        JObj [(''name'', JStr ''b'')]]. size x < 10"
    by simp
  have a: "importOtherSlug (Suc 0) test_env
     [JObj [(''name'', JObj [(''toString'', JNum 1)])], JObj [(''name'', JStr ''b'')]]
     ''author'' admin None False True w0
   = Some ([\<lparr>f_error = ''Cannot convert object to primitive value'',
             f_data = JObj [(''name'', JObj [(''toString'', JNum 1)])]\<rparr>],
           \<lparr>store = [(''author'', JObj [(''name'', JStr ''b''), (''id'', JNum 1)])],
            calls = [Create ''author'' (JObj [(''name'', JStr ''b'')])]\<rparr>)"
    by (simp add: importOtherSlug_attempts_every_record [THEN conjunct2, THEN conjunct1]
          importOtherSlug_attempts_every_record [THEN conjunct1]
          item_label_def updateOrCreate_body_def getModelAttributes_def relationTypes_def
          upsert_entry_def updateOrCreateCollectionType_def where_log_def query_create_def
          Let_def test_defs)
  have b: "importOtherSlug (Suc 0) test_env
       [JObj [(''name'', JStr ''a'')],
        JObj [(''name'', JStr ''a''), (''publishedAt'', JStr ''2020''), (''age'', JNum 3)],
        JObj [(''name'', JStr ''b'')]]
       ''author'' admin None False True w0
     = Some ([\<lparr>f_error = ''This attribute must be unique'',
               f_data = JObj [(''name'', JStr ''a''), (''age'', JNum 3)]\<rparr>],
             \<lparr>store = [(''author'', JObj [(''name'', JStr ''a''), (''id'', JNum 1)]),
                       (''author'', JObj [(''name'', JStr ''b''), (''id'', JNum 2)])],
              calls = [Create ''author'' (JObj [(''name'', JStr ''a'')]),
                       Create ''author'' (JObj [(''name'', JStr ''a''), (''age'', JNum 3)]),
                       Create ''author'' (JObj [(''name'', JStr ''b'')])]\<rparr>)"
    by (simp add: importOtherSlug_attempts_every_record [THEN conjunct2, THEN conjunct1]
          importOtherSlug_attempts_every_record [THEN conjunct1]
          item_label_def updateOrCreate_body_def getModelAttributes_def relationTypes_def
          upsert_entry_def updateOrCreateCollectionType_def where_log_def query_create_def
          Let_def test_defs)
  have u: "updateOrCreate (Suc 0) test_env admin ''author''
             (if \<not> False \<and> js_get (JObj [(''name'', JStr ''a''), (''publishedAt'', JStr ''2020''), (''age'', JNum 3)])
                                ''publishedAt'' \<noteq> JUndefined
              then js_delete (JObj [(''name'', JStr ''a''), (''publishedAt'', JStr ''2020''), (''age'', JNum 3)])
                     ''publishedAt''
              else JObj [(''name'', JStr ''a''), (''publishedAt'', JStr ''2020''), (''age'', JNum 3)])
             None
             \<lparr>store = [(''author'', JObj [(''name'', JStr ''a''), (''id'', JNum 1)])],
              calls = [Create ''author'' (JObj [(''name'', JStr ''a'')])]\<rparr>
           = Some (Inl (Error ''This attribute must be unique''),
                   JObj [(''name'', JStr ''a''), (''age'', JNum 3)],
                   \<lparr>store = [(''author'', JObj [(''name'', JStr ''a''), (''id'', JNum 1)])],
                    calls = [Create ''author'' (JObj [(''name'', JStr ''a'')]),
                             Create ''author'' (JObj [(''name'', JStr ''a''), (''age'', JNum 3)])]\<rparr>)"
    by (simp add: run_defs test_defs)
  have k: "''age'' \<notin> set ([''id'', ''publishedAt'']
                              @ map attr_name (getModelAttributes test_env ''author'' relationTypes))"
    by (simp add: getModelAttributes_def relationTypes_def test_defs)
  note c = importOtherSlug_attempts_every_record
            [THEN conjunct2, THEN conjunct2, THEN conjunct1, THEN mp, THEN mp, OF u k]
  have d: "returns (importOtherSlug 10 test_env
        [JObj [(''name'', JStr ''a'')],
         JObj [(''name'', JStr ''a''), (''publishedAt'', JStr ''2020''), (''age'', JNum 3)],
         JObj [(''name'', JStr ''b'')]]
        ''author'' admin None False True w0)"
    using importOtherSlug_attempts_every_record
            [THEN conjunct2, THEN conjunct2, THEN conjunct2, THEN mp, THEN mp, OF wf sz] .
  from a b c d show ?thesis by blast
qed


section \<open>The delimited-text parser\<close>

lemma parse_relation_fields_null:
  "obj_get datum name = JNull \<Longrightarrow> obj_get (parse_relation_fields env names datum) name = JNull"
proof (induction names arbitrary: datum)
  case Nil
  then show ?case by simp
next
  case (Cons n names)
  show ?case
  proof (cases "n = name")
    case True
    have "obj_get (obj_set datum name JNull) name = JNull" by (simp add: obj_get_set)
    from Cons.IH [OF this] show ?thesis using True Cons.prems by simp
  next
    case False
    show ?thesis
      unfolding parse_relation_fields.simps
      by (rule Cons.IH) (use False Cons.prems in \<open>simp add: obj_get_set Let_def split: sum.splits\<close>)
  qed
qed

lemma parse_relation_fields_cell:
  assumes "name \<in> set names"
    and "obj_get datum name = JUndefined \<or> obj_get datum name = JStr [] \<or> obj_get datum name = JStr ''null''
         \<or> JSON_parse env (obj_get datum name) = Inl e"
  shows "obj_get (parse_relation_fields env names datum) name = JNull"
  using assms
proof (induction names arbitrary: datum)
  case Nil
  then show ?case by simp
next
  case (Cons n names)
  show ?case
  proof (cases "n = name")
    case True
    have "obj_get (let v = obj_get datum name
             in if truthy v \<and> v \<noteq> JStr [] \<and> v \<noteq> JStr ''null'' \<and> v \<noteq> JStr ''undefined'' then
                  (case JSON_parse env v of
                     Inr x \<Rightarrow> obj_set datum name x
                   | Inl e \<Rightarrow> obj_set datum name JNull)
                else obj_set datum name JNull) name = JNull"
      using Cons.prems(2) by (auto simp: obj_get_set Let_def)
    from parse_relation_fields_null [OF this] show ?thesis using True by simp
  next
    case False
    then have m: "name \<in> set names" using Cons.prems(1) by simp
    show ?thesis
      unfolding parse_relation_fields.simps
      by (rule Cons.IH [OF m]) (use False Cons.prems(2) in \<open>simp add: obj_get_set Let_def split: sum.splits\<close>)
  qed
qed

lemma parse_relation_fields_other:
  "name \<notin> set names \<Longrightarrow> obj_get (parse_relation_fields env names datum) name = obj_get datum name"
  by (induction names arbitrary: datum) (auto simp: obj_get_set Let_def split: sum.splits)

lemma parse_date_fields_other:
  "name \<notin> set names \<Longrightarrow> obj_get (parse_date_fields env names datum) name = obj_get datum name"
  by (induction names arbitrary: datum) (auto simp: obj_get_set Let_def split: sum.splits option.splits)

lemma parse_boolean_fields_other:
  "name \<notin> set names \<Longrightarrow> obj_get (parse_boolean_fields names datum) name = obj_get datum name"
  by (induction names arbitrary: datum) (auto simp: obj_get_set Let_def)

lemma parse_number_fields_step:
  "parse_number_fields env (n # names) datum = Inl err \<Longrightarrow>
     Number env (obj_get datum n) = Inl err
     \<or> (\<exists>x. parse_number_fields env names (obj_set datum n x) = Inl err)
     \<or> parse_number_fields env names datum = Inl err"
  by (auto simp: Let_def split: if_splits sum.splits option.splits)

lemma parse_number_fields_step_Inr:
  "parse_number_fields env (n # names) datum = Inr out \<Longrightarrow>
     (\<exists>x. parse_number_fields env names (obj_set datum n x) = Inr out)
     \<or> parse_number_fields env names datum = Inr out"
  by (auto simp: Let_def split: if_splits sum.splits option.splits)

lemma parse_number_fields_other:
  "parse_number_fields env names datum = Inr out \<Longrightarrow> name \<notin> set names \<Longrightarrow>
     obj_get out name = obj_get datum name"
proof (induction names arbitrary: datum)
  case Nil
  then show ?case by simp
next
  case (Cons n names)
  have n: "name \<noteq> n" "name \<notin> set names" using Cons.prems(2) by auto
  from parse_number_fields_step_Inr [OF Cons.prems(1)] show ?case
  proof
    assume "\<exists>x. parse_number_fields env names (obj_set datum n x) = Inr out"
    then obtain x where "parse_number_fields env names (obj_set datum n x) = Inr out" by blast
    from Cons.IH [OF this n(2)] show ?thesis using n(1) by (simp add: obj_get_set)
  next
    assume "parse_number_fields env names datum = Inr out"
    from Cons.IH [OF this n(2)] show ?thesis .
  qed
qed

lemma parse_number_fields_raises:
  "parse_number_fields env names datum = Inl err \<Longrightarrow> distinct names \<Longrightarrow>
     \<exists>n \<in> set names. Number env (obj_get datum n) = Inl err"
proof (induction names arbitrary: datum)
  case Nil
  then show ?case by simp
next
  case (Cons n names)
  have d: "distinct names" "n \<notin> set names" using Cons.prems(2) by auto
  from parse_number_fields_step [OF Cons.prems(1)]
  consider "Number env (obj_get datum n) = Inl err"
    | x where "parse_number_fields env names (obj_set datum n x) = Inl err"
    | "parse_number_fields env names datum = Inl err"
    by blast
  then show ?case
  proof cases
    case 1
    then show ?thesis by auto
  next
    case 2
    from Cons.IH [OF 2 d(1)] obtain n' where
      n': "n' \<in> set names" "Number env (obj_get (obj_set datum n x) n') = Inl err" by blast
    then have "n' \<noteq> n" using d(2) by auto
    then show ?thesis using n' by (auto simp: obj_get_set)
  next
    case 3
    from Cons.IH [OF 3 d(1)] show ?thesis by auto
  qed
qed

lemma handle_publishedAt_other:
  "name \<noteq> ''publishedAt'' \<Longrightarrow> obj_get (handle_publishedAt hasDP iad datum) name = obj_get datum name"
  by (simp add: handle_publishedAt_def obj_get_set obj_get_delete)

lemma name_in_filtered:
  assumes "getModel env slug = Some m" "a \<in> set (attributes m)" "attr_type a \<in> set types"
  shows "attr_name a \<in> set (map attr_name (getModelAttributes env slug types))"
  using assms by (auto simp: getModelAttributes_def)

lemma name_not_in_filtered:
  assumes "getModel env slug = Some m" "distinct (map attr_name (attributes m))"
    and "a \<in> set (attributes m)" "attr_type a \<notin> set types"
  shows "attr_name a \<notin> set (map attr_name (getModelAttributes env slug types))"
proof
  assume "attr_name a \<in> set (map attr_name (getModelAttributes env slug types))"
  then obtain b where b: "b \<in> set (attributes m)" "attr_type b \<in> set types" "attr_name b = attr_name a"
    using assms(1) by (auto simp: getModelAttributes_def)
  from assms(2) have "inj_on attr_name (set (attributes m))" by (simp add: distinct_map)
  with b assms(3) have "b = a" by (auto dest: inj_onD)
  with b assms(4) show False by simp
qed


lemma getModelAttributes_distinct_names:
  assumes "getModel env slug = Some m" "distinct (map attr_name (attributes m))"
  shows "distinct (map attr_name (getModelAttributes env slug types))"
  using assms by (auto simp: getModelAttributes_def distinct_map_filter)

lemma parseCsv_row_relation_cell:
  assumes m: "getModel env slug = Some m" and d: "distinct (map attr_name (attributes m))"
    and a: "a \<in> set (attributes m)" and t: "attr_type a \<in> set relationTypes"
    and p: "attr_name a \<noteq> ''publishedAt''"
    and c: "obj_get datum (attr_name a) = JUndefined \<or> obj_get datum (attr_name a) = JStr []
            \<or> obj_get datum (attr_name a) = JStr ''null''
            \<or> JSON_parse env (obj_get datum (attr_name a)) = Inl e"
    and r: "parseCsv_row env slug iad datum = Inr out"
  shows "obj_get out (attr_name a) = JNull"
proof -
  have rel: "attr_name a \<in> set (map attr_name (getModelAttributes env slug relationTypes))"
    by (rule name_in_filtered [OF m a t])
  have n1: "attr_name a \<notin> set (map attr_name (getModelAttributes env slug [''datetime'', ''date'', ''time'']))"
    by (rule name_not_in_filtered [OF m d a]) (use t in \<open>auto simp: relationTypes_def\<close>)
  have n2: "attr_name a \<notin> set (map attr_name (getModelAttributes env slug [''boolean'']))"
    by (rule name_not_in_filtered [OF m d a]) (use t in \<open>auto simp: relationTypes_def\<close>)
  have n3: "attr_name a \<notin> set (map attr_name (getModelAttributes env slug numberTypes))"
    by (rule name_not_in_filtered [OF m d a]) (use t in \<open>auto simp: relationTypes_def numberTypes_def\<close>)
  from r obtain numbered where
    nb: "parse_number_fields env
           (map attr_name (getModelAttributes env slug numberTypes))
           (parse_boolean_fields
              (map attr_name (getModelAttributes env slug [''boolean'']))
              (parse_date_fields env
                 (map attr_name (getModelAttributes env slug [''datetime'', ''date'', ''time'']))
                 (parse_relation_fields env
                    (map attr_name (getModelAttributes env slug relationTypes))
                    datum))) = Inr numbered" and
    out: "out = handle_publishedAt (hasDraftAndPublish env slug) iad numbered"
    by (auto simp: parseCsv_row_def split: sum.splits)
  show ?thesis
    unfolding out
    by (simp only: handle_publishedAt_other [OF p] parse_number_fields_other [OF nb n3]
          parse_boolean_fields_other [OF n2] parse_date_fields_other [OF n1]
          parse_relation_fields_cell [OF rel c])
qed

lemma parseCsv_row_raises:
  assumes m: "getModel env slug = Some m" and d: "distinct (map attr_name (attributes m))"
    and r: "parseCsv_row env slug iad datum = Inl err"
  shows "\<exists>b \<in> set (attributes m). attr_type b \<in> set numberTypes
           \<and> Number env (obj_get datum (attr_name b)) = Inl err"
proof -
  from r have
    nb: "parse_number_fields env
           (map attr_name (getModelAttributes env slug numberTypes))
           (parse_boolean_fields
              (map attr_name (getModelAttributes env slug [''boolean'']))
              (parse_date_fields env
                 (map attr_name (getModelAttributes env slug [''datetime'', ''date'', ''time'']))
                 (parse_relation_fields env
                    (map attr_name (getModelAttributes env slug relationTypes))
                    datum))) = Inl err"
    by (auto simp: parseCsv_row_def split: sum.splits)
  from parse_number_fields_raises [OF nb getModelAttributes_distinct_names [OF m d]]
  obtain n where n: "n \<in> set (map attr_name (getModelAttributes env slug numberTypes))" and
    c: "Number env (obj_get (parse_boolean_fields
              (map attr_name (getModelAttributes env slug [''boolean'']))
              (parse_date_fields env
                 (map attr_name (getModelAttributes env slug [''datetime'', ''date'', ''time'']))
                 (parse_relation_fields env
                    (map attr_name (getModelAttributes env slug relationTypes))
                    datum))) n) = Inl err"
    by blast
  from n obtain b where b: "b \<in> set (attributes m)" "attr_type b \<in> set numberTypes" "n = attr_name b"
    using m by (auto simp: getModelAttributes_def)
  have n1: "attr_name b \<notin> set (map attr_name (getModelAttributes env slug [''datetime'', ''date'', ''time'']))"
    by (rule name_not_in_filtered [OF m d b(1)]) (use b(2) in \<open>auto simp: numberTypes_def\<close>)
  have n2: "attr_name b \<notin> set (map attr_name (getModelAttributes env slug [''boolean'']))"
    by (rule name_not_in_filtered [OF m d b(1)]) (use b(2) in \<open>auto simp: numberTypes_def\<close>)
  have n3: "attr_name b \<notin> set (map attr_name (getModelAttributes env slug relationTypes))"
    by (rule name_not_in_filtered [OF m d b(1)]) (use b(2) in \<open>auto simp: relationTypes_def numberTypes_def\<close>)
  have "Number env (obj_get datum (attr_name b)) = Inl err"
    using c unfolding b(3)
    by (simp only: parse_boolean_fields_other [OF n2] parse_date_fields_other [OF n1]
          parse_relation_fields_other [OF n3])
  then show ?thesis using b by blast
qed

lemma parseCsv_rows_Inr:
  "parseCsv_rows env slug iad rows = Inr recs \<Longrightarrow>
     length recs = length rows
     \<and> (\<forall>k < length rows. \<exists>out. parseCsv_row env slug iad (rows ! k) = Inr out \<and> recs ! k = JObj out)"
proof (induction rows arbitrary: recs)
  case Nil
  then show ?case by simp
next
  case (Cons row rows)
  from Cons.prems obtain out rest where
    o: "parseCsv_row env slug iad row = Inr out" and
    r: "parseCsv_rows env slug iad rows = Inr rest" and e: "recs = JObj out # rest"
    by (auto split: sum.splits)
  from Cons.IH [OF r] have l: "length rest = length rows" and
    ih: "\<And>k. k < length rows \<Longrightarrow> \<exists>out. parseCsv_row env slug iad (rows ! k) = Inr out \<and> rest ! k = JObj out"
    by auto
  have "\<exists>out. parseCsv_row env slug iad ((row # rows) ! k) = Inr out \<and> recs ! k = JObj out"
    if "k < length (row # rows)" for k
  proof (cases k)
    case 0
    then show ?thesis using o e by simp
  next
    case (Suc j)
    then show ?thesis using ih [of j] that e by simp
  qed
  then show ?case using l e by simp
qed

lemma parseCsv_rows_Inl:
  "parseCsv_rows env slug iad rows = Inl err \<Longrightarrow>
     \<exists>row \<in> set rows. parseCsv_row env slug iad row = Inl err"
  by (induction rows) (auto split: sum.splits)

text \<open>
  C7. Take a model whose attributes have distinct names (they are the keys of the
  schema's attribute object), one of its relation, component, media or dynamic-zone
  attributes (not the publish-state field itself), and a decoded row whose cell for that
  attribute is missing, empty, the text \<open>null\<close>, or text that \<open>JSON.parse\<close> rejects.
  Whenever \<open>parseCsv\<close> returns, it returns as many records as there are rows and the
  attribute is \<open>null\<close> in the record of that row. And \<open>parseCsv\<close> raises nothing for
  that cell: whatever it raises is what \<open>Number\<close> raised for the cell of a numeric
  attribute, which is another attribute, in some row; so when \<open>Number\<close> raises for no
  such cell, \<open>parseCsv\<close> returns.
\<close>

theorem parseCsv_relation_cell_null:
  assumes "getModel env slug = Some m" and "distinct (map attr_name (attributes m))"
    and "a \<in> set (attributes m)" and "attr_type a \<in> set relationTypes"
    and "attr_name a \<noteq> ''publishedAt''"
    and "csvtojson env dataRaw = Inr rows" and "k < length rows"
    and "obj_get (rows ! k) (attr_name a) = JUndefined \<or> obj_get (rows ! k) (attr_name a) = JStr []
         \<or> obj_get (rows ! k) (attr_name a) = JStr ''null''
         \<or> JSON_parse env (obj_get (rows ! k) (attr_name a)) = Inl e"
  shows
    "(parseCsv env dataRaw slug importAsDrafts = Inr out \<longrightarrow>
        (\<exists>recs. out = JArr recs \<and> length recs = length rows
                \<and> js_get (recs ! k) (attr_name a) = JNull))
     \<and> (parseCsv env dataRaw slug importAsDrafts = Inl err \<longrightarrow>
          (\<exists>row \<in> set rows. \<exists>b \<in> set (attributes m).
              attr_type b \<in> set numberTypes \<and> attr_name b \<noteq> attr_name a
              \<and> Number env (obj_get row (attr_name b)) = Inl err))
     \<and> ((\<forall>row \<in> set rows. \<forall>b \<in> set (attributes m). attr_type b \<in> set numberTypes \<longrightarrow>
             (\<exists>n. Number env (obj_get row (attr_name b)) = Inr n)) \<longrightarrow>
          (\<exists>recs. parseCsv env dataRaw slug importAsDrafts = Inr (JArr recs)))"
proof (intro conjI impI)
  assume "parseCsv env dataRaw slug importAsDrafts = Inr out"
  then obtain recs where
    r: "parseCsv_rows env slug (case importAsDrafts of None \<Rightarrow> True | Some b \<Rightarrow> b) rows = Inr recs" and
    o: "out = JArr recs"
    using assms(6) by (auto simp: parseCsv_def split: sum.splits)
  from parseCsv_rows_Inr [OF r] assms(7) obtain rowOut where
    l: "length recs = length rows" and
    p: "parseCsv_row env slug (case importAsDrafts of None \<Rightarrow> True | Some b \<Rightarrow> b) (rows ! k) = Inr rowOut" and
    q: "recs ! k = JObj rowOut"
    by blast
  from parseCsv_row_relation_cell [OF assms(1-5,8) p] o l q
  show "\<exists>recs. out = JArr recs \<and> length recs = length rows \<and> js_get (recs ! k) (attr_name a) = JNull"
    by simp
next
  assume "parseCsv env dataRaw slug importAsDrafts = Inl err"
  then have "parseCsv_rows env slug (case importAsDrafts of None \<Rightarrow> True | Some b \<Rightarrow> b) rows = Inl err"
    using assms(6) by (auto simp: parseCsv_def split: sum.splits)
  from parseCsv_rows_Inl [OF this] obtain row where
    row: "row \<in> set rows" "parseCsv_row env slug (case importAsDrafts of None \<Rightarrow> True | Some b \<Rightarrow> b) row = Inl err"
    by blast
  from parseCsv_row_raises [OF assms(1,2) row(2)] obtain b where
    b: "b \<in> set (attributes m)" "attr_type b \<in> set numberTypes"
       "Number env (obj_get row (attr_name b)) = Inl err"
    by blast
  have "attr_type b \<noteq> attr_type a" using b(2) assms(4) by (auto simp: numberTypes_def relationTypes_def)
  then have "attr_name b \<noteq> attr_name a" using assms(2,3) b(1) by (auto simp: distinct_map dest: inj_onD)
  then show "\<exists>row \<in> set rows. \<exists>b \<in> set (attributes m).
              attr_type b \<in> set numberTypes \<and> attr_name b \<noteq> attr_name a
              \<and> Number env (obj_get row (attr_name b)) = Inl err"
    using row(1) b by blast
next
  assume n: "\<forall>row \<in> set rows. \<forall>b \<in> set (attributes m). attr_type b \<in> set numberTypes \<longrightarrow>
             (\<exists>n. Number env (obj_get row (attr_name b)) = Inr n)"
  show "\<exists>recs. parseCsv env dataRaw slug importAsDrafts = Inr (JArr recs)"
  proof (cases "parseCsv_rows env slug (case importAsDrafts of None \<Rightarrow> True | Some b \<Rightarrow> b) rows")
    case (Inr recs)
    then show ?thesis using assms(6) by (simp add: parseCsv_def)
  next
    case (Inl err)
    from parseCsv_rows_Inl [OF this] obtain row where
      row: "row \<in> set rows" "parseCsv_row env slug (case importAsDrafts of None \<Rightarrow> True | Some b \<Rightarrow> b) row = Inl err"
      by blast
    from parseCsv_row_raises [OF assms(1,2) row(2)] obtain b where
      b: "b \<in> set (attributes m)" "attr_type b \<in> set numberTypes"
         "Number env (obj_get row (attr_name b)) = Inl err"
      by blast
    with n row(1) show ?thesis by fastforce
  qed
qed

theorem parseCsv_relation_cell_null_witness:
  "parseCsv test_env (JStr csv_rows) ''article'' (Some False) =
     Inr (JArr [JObj [(''title'', JStr ''a''), (''author'', JNull), (''publishedAt'', JStr ''2020-01-01''),
                      (''editor'', JNull), (''createdBy'', JNull)]])
   \<and> (\<exists>recs. JArr [JObj [(''title'', JStr ''a''), (''author'', JNull), (''publishedAt'', JStr ''2020-01-01''),
                          (''editor'', JNull), (''createdBy'', JNull)]] = JArr recs
         \<and> length recs = 1 \<and> js_get (recs ! 0) ''author'' = JNull)
   \<and> parseCsv test_env (JStr csv_dotted) ''article'' (Some False)
       = Inl (Error ''Cannot convert object to primitive value'')"
proof -
  have m: "getModel test_env ''article'' =
      Some \<lparr>kind = ''collectionType'', draftAndPublish = True,
            attributes = [attr ''title'' ''string'' [], attr ''views'' ''integer'' [],
                          attr ''author'' ''relation'' ''author'',
                          attr ''editor'' ''relation'' ''editor'',
                          attr ''createdBy'' ''relation'' ''user'']\<rparr>"
    by (simp add: test_env_def test_getModel_def)
  have d: "distinct (map attr_name (attributes
      \<lparr>kind = ''collectionType'', draftAndPublish = True,
       attributes = [attr ''title'' ''string'' [], attr ''views'' ''integer'' [],
                     attr ''author'' ''relation'' ''author'',
                     attr ''editor'' ''relation'' ''editor'',
                     attr ''createdBy'' ''relation'' ''user'']\<rparr>))"
    by (simp add: attr_def)
  have a: "attr ''author'' ''relation'' ''author'' \<in> set (attributes
      \<lparr>kind = ''collectionType'', draftAndPublish = True,
       attributes = [attr ''title'' ''string'' [], attr ''views'' ''integer'' [],
                     attr ''author'' ''relation'' ''author'',
                     attr ''editor'' ''relation'' ''editor'',
                     attr ''createdBy'' ''relation'' ''user'']\<rparr>)"
    by simp
  have t: "attr_type (attr ''author'' ''relation'' ''author'') \<in> set relationTypes"
    by (simp add: attr_def relationTypes_def)
  have p: "attr_name (attr ''author'' ''relation'' ''author'') \<noteq> ''publishedAt''"
    by (simp add: attr_def)
  have c: "csvtojson test_env (JStr csv_rows) =
      Inr [[(''title'', JStr ''a''), (''author'', JStr ''{bad''), (''publishedAt'', JStr ''2020-01-01'')]]"
    by (simp add: test_env_def test_csvtojson_def)
  have k: "0 < length [[(''title'', JStr ''a''), (''author'', JStr ''{bad''), (''publishedAt'', JStr ''2020-01-01'')]]"
    by simp
  have bad: "obj_get ([[(''title'', JStr ''a''), (''author'', JStr ''{bad''), (''publishedAt'', JStr ''2020-01-01'')]] ! 0)
           (attr_name (attr ''author'' ''relation'' ''author'')) = JUndefined
     \<or> obj_get ([[(''title'', JStr ''a''), (''author'', JStr ''{bad''), (''publishedAt'', JStr ''2020-01-01'')]] ! 0)
           (attr_name (attr ''author'' ''relation'' ''author'')) = JStr []
     \<or> obj_get ([[(''title'', JStr ''a''), (''author'', JStr ''{bad''), (''publishedAt'', JStr ''2020-01-01'')]] ! 0)
           (attr_name (attr ''author'' ''relation'' ''author'')) = JStr ''null''
     \<or> JSON_parse test_env (obj_get ([[(''title'', JStr ''a''), (''author'', JStr ''{bad''), (''publishedAt'', JStr ''2020-01-01'')]] ! 0)
           (attr_name (attr ''author'' ''relation'' ''author''))) = Inl (Error ''Unexpected token'')"
    by (simp add: attr_def test_env_def test_JSON_parse_def json_nested_editor_def
          json_nested_person_def json_published_def)
  have e: "parseCsv test_env (JStr csv_rows) ''article'' (Some False) =
     Inr (JArr [JObj [(''title'', JStr ''a''), (''author'', JNull), (''publishedAt'', JStr ''2020-01-01''),
                      (''editor'', JNull), (''createdBy'', JNull)]])"
    by (simp add: parseCsv_def parseCsv_row_def handle_publishedAt_def hasDraftAndPublish_def
          getModelAttributes_def relationTypes_def numberTypes_def test_defs Let_def)
  have f: "parseCsv test_env (JStr csv_dotted) ''article'' (Some False)
       = Inl (Error ''Cannot convert object to primitive value'')"
    by (simp add: parseCsv_def parseCsv_row_def handle_publishedAt_def hasDraftAndPublish_def
          getModelAttributes_def relationTypes_def numberTypes_def test_defs Let_def)
  from parseCsv_relation_cell_null [OF m d a t p c k bad, THEN conjunct1, THEN mp, OF e] e f
  show ?thesis by (simp add: attr_def)
qed


section \<open>The publish state of a record on its way to the store\<close>

subsection \<open>What the parsers leave in a record\<close>

lemma transform_item_unpublished:
  "transform_item env True True item = Inr t \<Longrightarrow> js_get t ''publishedAt'' = JNull"
  by (auto simp: transform_item_def Let_def obj_get_set split: if_splits sum.splits option.splits)

lemma transform_items_unpublished:
  "transform_items env True True items = Inr ts \<Longrightarrow> t \<in> set ts \<Longrightarrow> js_get t ''publishedAt'' = JNull"
proof (induction items arbitrary: ts)
  case Nil
  then show ?case by simp
next
  case (Cons item items)
  from Cons.prems(1) obtain t1 ts1 where
    a: "transform_item env True True item = Inr t1" and
    b: "transform_items env True True items = Inr ts1" and c: "ts = t1 # ts1"
    by (auto split: sum.splits)
  from transform_item_unpublished [OF a] Cons.IH [OF b] Cons.prems(2) c show ?case by auto
qed

lemma parseCsv_row_unpublished:
  "parseCsv_row env slug True datum = Inr out \<Longrightarrow> hasDraftAndPublish env slug \<Longrightarrow>
     obj_get out ''publishedAt'' = JNull"
  by (auto simp: parseCsv_row_def handle_publishedAt_def obj_get_set split: sum.splits)

lemma parseCsv_unpublished:
  assumes "hasDraftAndPublish env slug" and "parseCsv env dataRaw slug (Some True) = Inr data"
    and "datum \<in> set (toArray data)"
  shows "js_get datum ''publishedAt'' = JNull"
proof -
  from assms(2) obtain rows recs where
    r: "parseCsv_rows env slug True rows = Inr recs" and d: "data = JArr recs"
    by (auto simp: parseCsv_def split: sum.splits)
  from assms(3) d obtain k where k: "k < length recs" "datum = recs ! k"
    by (auto simp: in_set_conv_nth)
  from parseCsv_rows_Inr [OF r] k obtain out where
    "parseCsv_row env slug True (rows ! k) = Inr out" "recs ! k = JObj out"
    by auto
  then show ?thesis using parseCsv_row_unpublished [OF _ assms(1)] k by simp
qed

lemma parseJson_unpublished:
  assumes "hasDraftAndPublish env slug" and "parseJson env dataRaw slug (Some True) = Inr data"
    and "datum \<in> set (toArray data)" and "isObjectSafe datum"
  shows "js_get datum ''publishedAt'' = JNull"
proof -
  from assms(1,2) obtain parsed where p: "JSON_parse env dataRaw = Inr parsed" and
    d: "(case parsed of
           JArr items \<Rightarrow> Inr (JArr (map (\<lambda>item. JObj (obj_set (spread item) ''publishedAt'' JNull)) items))
         | _ \<Rightarrow> if typeof parsed = ''object'' then js_set parsed ''publishedAt'' JNull else Inr parsed)
        = Inr data"
    by (auto simp: parseJson_def split: sum.splits)
  show ?thesis
    using d assms(3,4) by (cases parsed) (auto simp: obj_get_set split: if_splits)
qed

lemma parsePostgresJson_unpublished:
  assumes "hasDraftAndPublish env slug" and "parsePostgresJson env dataRaw slug (Some True) = Inr data"
    and "datum \<in> set (toArray data)"
  shows "js_get datum ''publishedAt'' = JNull"
  using assms
  by (auto simp: parsePostgresJson_def split: sum.splits dest: transform_items_unpublished)

lemma records_unpublished:
  assumes dp: "hasDraftAndPublish env slug"
    and fmt: "format \<in> set [''csv'', ''json'', ''postgres'']"
    and iad: "importAsDrafts \<noteq> Some False"
    and rec: "importData_records env dataRaw slug format importAsDrafts = Inr data"
    and mem: "datum \<in> set data" and ob: "isObjectSafe datum"
  shows "js_get datum ''publishedAt'' = JNull"
proof -
  have t: "(case importAsDrafts of None \<Rightarrow> True | Some b \<Rightarrow> b) = True"
    using iad by (cases importAsDrafts) auto
  from fmt consider "format = ''csv''" | "format = ''json''" | "format = ''postgres''" by auto
  then show ?thesis
  proof cases
    case 1
    then obtain d where "parseCsv env dataRaw slug (Some True) = Inr d" "data = toArray d"
      using rec dp t
      by (auto simp: importData_records_def parseInputData_def inputFormatToParser_def split: sum.splits)
    then show ?thesis using parseCsv_unpublished [OF dp] mem by simp
  next
    case 2
    then obtain d where "parseJson env dataRaw slug (Some True) = Inr d" "data = toArray d"
      using rec dp t
      by (auto simp: importData_records_def parseInputData_def inputFormatToParser_def split: sum.splits)
    then show ?thesis using parseJson_unpublished [OF dp] mem ob by simp
  next
    case 3
    then obtain d where "parsePostgresJson env dataRaw slug (Some True) = Inr d" "data = toArray d"
      using rec dp t
      by (auto simp: importData_records_def parseInputData_def inputFormatToParser_def split: sum.splits)
    then show ?thesis using parsePostgresJson_unpublished [OF dp] mem by simp
  qed
qed

section \<open>The examples, run\<close>

text \<open>
  C3. The claim fails on the code at two inputs. The \<open>json\<close> parser, in draft mode, sets
  \<open>publishedAt = null\<close> on the records of the input (lemma \<open>records_unpublished\<close>), not
  on the records nested in their relational fields, which the resolver upserts as they
  are: for a model \<open>article\<close> with a relation to a model \<open>editor\<close>, both with draft and
  publish, the editor nested in the imported article is created with the publish date of
  the source. And \<open>importData\<close> does not parse a \<open>jso\<close> input, whose records reach the
  store with the publish date of the source as well.
\<close>

theorem drafts_import_writes_published_record:
  "hasDraftAndPublish test_env ''article'' \<and> hasDraftAndPublish test_env ''editor''
   \<and> map_option (\<lambda>(r, w). List.map_filter written (calls w))
       (importData (Suc (Suc 0)) test_env (JStr json_nested_editor) ''article'' ''json'' admin
          (Some ''id'') (Some True) w0)
     = Some [(''editor'', JObj [(''name'', JStr ''ed''), (''publishedAt'', JStr ''2020-01-01'')]),
             (''article'', JObj [(''title'', JStr ''t''), (''editor'', JNum 1), (''publishedAt'', JNull),
                                 (''author'', JNull), (''createdBy'', JNull)])]
   \<and> map_option (\<lambda>(r, w). List.map_filter written (calls w))
       (importData (Suc 0) test_env
          (JArr [JObj [(''title'', JStr ''t''), (''publishedAt'', JStr ''2020-01-01'')]])
          ''article'' ''jso'' admin (Some ''id'') (Some True) w0)
     = Some [(''article'', JObj [(''title'', JStr ''t''), (''publishedAt'', JStr ''2020-01-01''),
                                 (''author'', JNull), (''editor'', JNull), (''createdBy'', JNull)])]"
  by (simp add: run_defs test_defs)

text \<open>
  C4. The claim fails on the code for a record nested in a relational field. The parsers
  and the import loop delete \<open>publishedAt\<close> from the records of the input, and the
  resolver upserts a nested record as it is: for a model \<open>person\<close> without draft and
  publish, with a relation \<open>mentor\<close> to itself, the mentor nested in the imported person
  is created with its \<open>publishedAt\<close>, while the person itself is created without.
\<close>

theorem no_draft_model_nested_record_keeps_publish_state:
  "\<not> hasDraftAndPublish test_env ''person''
   \<and> map_option (\<lambda>(r, w). List.map_filter written (calls w))
       (importData (Suc (Suc 0)) test_env (JStr json_nested_person) ''person'' ''json'' admin
          (Some ''id'') (Some True) w0)
     = Some [(''person'', JObj [(''name'', JStr ''bob''), (''publishedAt'', JStr ''2020-01-01''),
                                (''mentor'', JNull)]),
             (''person'', JObj [(''name'', JStr ''ann''), (''mentor'', JNum 1)])]
   \<and> has_own (JObj [(''name'', JStr ''bob''), (''publishedAt'', JStr ''2020-01-01''), (''mentor'', JNull)])
        ''publishedAt''"
  by (simp add: run_defs test_defs)

text \<open>
  C9. A call that leaves \<open>importAsDrafts\<close> out behaves as the same call with
  \<open>importAsDrafts = true\<close>: at \<open>importData\<close>, at \<open>parseInputData\<close>, at each parser and
  at the controller. What the claim draws from it fails on the code as it does with the
  option given: an import of the model \<open>article\<close> that leaves the option out creates the
  nested editor with the publish date of the source, and writes the record of a \<open>jso\<close>
  input with the publish date of the source.
\<close>

theorem omitted_importAsDrafts_is_true_and_publishes:
  "importData n env dataRaw slug format user idField None w
     = importData n env dataRaw slug format user idField (Some True) w
   \<and> parseInputData env format dataRaw slug None = parseInputData env format dataRaw slug (Some True)
   \<and> parseCsv env dataRaw slug None = parseCsv env dataRaw slug (Some True)
   \<and> parseJson env dataRaw slug None = parseJson env dataRaw slug (Some True)
   \<and> parsePostgresJson env dataRaw slug None = parsePostgresJson env dataRaw slug (Some True)
   \<and> importData_controller n env permitted user (r\<lparr>req_importAsDrafts := None\<rparr>) w
       = importData_controller n env permitted user (r\<lparr>req_importAsDrafts := Some True\<rparr>) w
   \<and> hasDraftAndPublish test_env ''article'' \<and> hasDraftAndPublish test_env ''editor''
   \<and> map_option (\<lambda>(r, w). List.map_filter written (calls w))
       (importData (Suc (Suc 0)) test_env (JStr json_nested_editor) ''article'' ''json'' admin
          None None w0)
     = Some [(''editor'', JObj [(''name'', JStr ''ed''), (''publishedAt'', JStr ''2020-01-01'')]),
             (''article'', JObj [(''title'', JStr ''t''), (''editor'', JNum 1), (''publishedAt'', JNull),
                                 (''author'', JNull), (''createdBy'', JNull)])]
   \<and> map_option (\<lambda>(r, w). List.map_filter written (calls w))
       (importData (Suc 0) test_env
          (JArr [JObj [(''title'', JStr ''t''), (''publishedAt'', JStr ''2020-01-01'')]])
          ''article'' ''jso'' admin None None w0)
     = Some [(''article'', JObj [(''title'', JStr ''t''), (''publishedAt'', JStr ''2020-01-01''),
                                 (''author'', JNull), (''editor'', JNull), (''createdBy'', JNull)])]"
proof (intro conjI)
  show "importData n env dataRaw slug format user idField None w
     = importData n env dataRaw slug format user idField (Some True) w"
    by (simp add: importData_def importData_records_def importOtherSlug_def
          split: sum.splits option.splits)
  show "parseInputData env format dataRaw slug None = parseInputData env format dataRaw slug (Some True)"
    by (simp add: parseInputData_def split: option.splits parser.splits)
  show "parseCsv env dataRaw slug None = parseCsv env dataRaw slug (Some True)"
    by (simp add: parseCsv_def split: sum.splits)
  show "parseJson env dataRaw slug None = parseJson env dataRaw slug (Some True)"
    by (simp add: parseJson_def split: sum.splits)
  show "parsePostgresJson env dataRaw slug None = parsePostgresJson env dataRaw slug (Some True)"
    by (simp add: parsePostgresJson_def split: sum.splits)
  show "importData_controller n env permitted user (r\<lparr>req_importAsDrafts := None\<rparr>) w
       = importData_controller n env permitted user (r\<lparr>req_importAsDrafts := Some True\<rparr>) w"
  proof -
    have af: "actualFormat (r\<lparr>req_importAsDrafts := x\<rparr>) = actualFormat r" for x
      by (simp add: actualFormat_def)
    show ?thesis
      by (simp add: importData_controller_def af Let_def split: sum.splits option.splits)
  qed
  show "hasDraftAndPublish test_env ''article''" "hasDraftAndPublish test_env ''editor''"
    by (simp_all add: hasDraftAndPublish_def test_defs)
  show "map_option (\<lambda>(r, w). List.map_filter written (calls w))
       (importData (Suc (Suc 0)) test_env (JStr json_nested_editor) ''article'' ''json'' admin
          None None w0)
     = Some [(''editor'', JObj [(''name'', JStr ''ed''), (''publishedAt'', JStr ''2020-01-01'')]),
             (''article'', JObj [(''title'', JStr ''t''), (''editor'', JNum 1), (''publishedAt'', JNull),
                                 (''author'', JNull), (''createdBy'', JNull)])]"
    by (simp add: run_defs test_defs)
  show "map_option (\<lambda>(r, w). List.map_filter written (calls w))
       (importData (Suc 0) test_env
          (JArr [JObj [(''title'', JStr ''t''), (''publishedAt'', JStr ''2020-01-01'')]])
          ''article'' ''jso'' admin None None w0)
     = Some [(''article'', JObj [(''title'', JStr ''t''), (''publishedAt'', JStr ''2020-01-01''),
                                 (''author'', JNull), (''editor'', JNull), (''createdBy'', JNull)])]"
    by (simp add: run_defs test_defs)
qed

text \<open>
  C8. The format \<open>toString\<close> is none of the recognized formats, and \<open>parseInputData\<close>
  does not fail for it: \<open>inputFormatToParser['toString']\<close> is the method inherited from
  \<open>Object.prototype\<close>, which is truthy, so the guard \<open>if (!parser)\<close> lets it through
  and the method is called in the parser's place. Called with no receiver it answers the
  text \<open>[object Undefined]\<close>; \<open>importData\<close> takes that text for the one record to import
  and, for a model without relational attributes, hands it to the store.
\<close>

theorem inherited_format_is_not_refused:
  "''toString'' \<notin> set InputFormats
   \<and> parseInputData env ''toString'' dataRaw slug importAsDrafts = Object_prototype env ''toString'' dataRaw
   \<and> parseInputData test_env ''toString'' (JStr ''x'') ''author'' None = Inr (JStr ''[object Undefined]'')
   \<and> importData (Suc 0) test_env (JStr ''x'') ''author'' ''toString'' admin None None w0
       = Some (Inr [], \<lparr>store = [(''author'', JObj [(''id'', JNum 1)])],
                        calls = [Create ''author'' (JStr ''[object Undefined]'')]\<rparr>)"
  by (simp add: InputFormats_def run_defs test_defs)

lemma unsupported_format_error:
  assumes "format \<notin> set InputFormats" and "format \<notin> set Object_prototype_keys"
  shows "parseInputData env format dataRaw slug importAsDrafts
           = Inl (Error (''Data input format '' @ format @ '' is not supported.''))"
    and "importData n env dataRaw slug format user idField importAsDrafts w
           = Some (Inl (Error (''Data input format '' @ format @ '' is not supported.'')), w)"
proof -
  have n: "inputFormatToParser format = None"
    using assms by (simp add: inputFormatToParser_def InputFormats_def)
  show p: "parseInputData env format dataRaw slug importAsDrafts
           = Inl (Error (''Data input format '' @ format @ '' is not supported.''))" for importAsDrafts
    using n by (simp add: parseInputData_def)
  have "format \<noteq> ''jso''" using assms(1) by (auto simp: InputFormats_def)
  then show "importData n env dataRaw slug format user idField importAsDrafts w
           = Some (Inl (Error (''Data input format '' @ format @ '' is not supported.'')), w)"
    by (simp add: importData_def importData_records_def p)
qed

end
